theory Spec2Isabelle
  imports Main "HOL-Library.Sublist"
begin

section \<open>JavaScript values, strings and JSON text\<close>

text \<open>
  The SDK is TypeScript. A string is a list of code units (here \<open>char\<close>, so the
  model covers code units below 256), a number is an integer (\<open>Date.now()\<close>,
  counters, lengths and durations are integers; fractional numbers, and magnitudes from
  \<open>10^21\<close> on, which JavaScript prints in exponent form, are outside the model), and a
  value of type \<open>unknown\<close> is a \<open>js\<close> value. An \<open>Error\<close> instance is the record of
  the four properties the SDK reads from it. Two kinds of value cannot be printed by
  \<open>JSON.stringify\<close>: a \<open>BigInt\<close>, and an object whose traversal raises, which is
  \<open>Unserializable e\<close> with \<open>e\<close> the value raised (a TypeError for a reference cycle,
  whatever a \<open>toJSON\<close> method or a getter throws).
\<close>

record js_error =
  name :: string
  message :: string
  constructor_name :: string
  stack :: "string option"

datatype js =
    Undefined
  | Null
  | Bool bool
  | Num int
  | Str string
  | Arr "js list"
  | Obj "(string \<times> js) list"
  | ErrorV js_error
  | BigInt int
  | Unserializable js

type_synonym js_object = "(string \<times> js) list"

text \<open>The result of an asynchronous call: the promise resolves or rejects.\<close>

datatype 'a outcome = Returned 'a | Thrown js

text \<open>JavaScript truthiness, as used by \<open>a ? b : c\<close> and \<open>a || b\<close>.\<close>

fun truthy :: "js \<Rightarrow> bool" where
  "truthy Undefined = False"
| "truthy Null = False"
| "truthy (Bool b) = b"
| "truthy (Num n) = (n \<noteq> 0)"
| "truthy (Str s) = (s \<noteq> [])"
| "truthy (Arr vs) = True"
| "truthy (Obj kvs) = True"
| "truthy (ErrorV e) = True"
| "truthy (BigInt n) = (n \<noteq> 0)"
| "truthy (Unserializable e) = True"

text \<open>\<open>a || b\<close> for \<open>a\<close> of type \<open>string | undefined\<close>: the empty string is falsy.\<close>

fun or_else :: "string option \<Rightarrow> string \<Rightarrow> string" where
  "or_else None d = d"
| "or_else (Some s) d = (if s = [] then d else s)"

text \<open>An optional property of an object literal: \<open>undefined\<close> when absent.\<close>

fun opt_str :: "string option \<Rightarrow> js" where
  "opt_str None = Undefined"
| "opt_str (Some s) = Str s"

fun opt_num :: "int option \<Rightarrow> js" where
  "opt_num None = Undefined"
| "opt_num (Some n) = Num n"

fun opt_bool :: "bool option \<Rightarrow> js" where
  "opt_bool None = Undefined"
| "opt_bool (Some b) = Bool b"

subsection \<open>Strings\<close>

text \<open>\<open>String.prototype.toLowerCase\<close> on code units below 256: A-Z and the Latin-1 capitals.\<close>

definition toLowerCase_char :: "char \<Rightarrow> char" where
  "toLowerCase_char c =
     (let n = (of_char c :: nat)
      in if (65 \<le> n \<and> n \<le> 90) \<or> (192 \<le> n \<and> n \<le> 222 \<and> n \<noteq> 215)
         then char_of (n + 32) else c)"

definition toLowerCase :: "string \<Rightarrow> string" where
  "toLowerCase s = map toLowerCase_char s"

text \<open>\<open>s.includes(t)\<close>: \<open>t\<close> occurs in \<open>s\<close> as a contiguous run.\<close>

fun str_includes :: "string \<Rightarrow> string \<Rightarrow> bool" where
  "str_includes [] t = (t = [])"
| "str_includes (c # s) t = (prefix t (c # s) \<or> str_includes s t)"

text \<open>\<open>s.substring(i, j)\<close> for \<open>i \<le> j\<close>.\<close>

definition substring :: "string \<Rightarrow> nat \<Rightarrow> nat \<Rightarrow> string" where
  "substring s i j = take (j - i) (drop i s)"

text \<open>
  The decimal text of an integer, as a template literal or \<open>JSON.stringify\<close> prints it.
  The numbers of the model are the integers the SDK computes with: clock readings,
  their differences, lengths and counters, all far below \<open>2\<^sup>5\<^sup>3\<close>, where a
  JavaScript number is the integer itself and prints in decimal. A number from
  \<open>10\<^sup>2\<^sup>1\<close> on prints in exponent form and a fraction with a point; a caller can put
  such numbers into a payload, and their text is not modelled.
\<close>

definition digit_char :: "nat \<Rightarrow> char" where
  "digit_char d = char_of (48 + d)"

function decimal :: "nat \<Rightarrow> string" where
  "decimal n = (if n < 10 then [digit_char n] else decimal (n div 10) @ [digit_char (n mod 10)])"
  by pat_completeness auto
termination
  by (relation "measure id") auto

declare decimal.simps [simp del]

definition Number_toString :: "int \<Rightarrow> string" where
  "Number_toString i = (if i < 0 then CHR ''-'' # decimal (nat (- i)) else decimal (nat i))"

subsection \<open>\<open>JSON.stringify\<close>\<close>

definition hex_digit :: "nat \<Rightarrow> char" where
  "hex_digit d = (if d < 10 then char_of (48 + d) else char_of (87 + d))"

text \<open>The escape of one code unit inside a JSON string (ECMAScript QuoteJSONString).\<close>

definition json_escape :: "char \<Rightarrow> string" where
  "json_escape c =
     (let n = (of_char c :: nat)
      in if n = 8 then [CHR 0x5C, CHR ''b'']
         else if n = 9 then [CHR 0x5C, CHR ''t'']
         else if n = 10 then [CHR 0x5C, CHR ''n'']
         else if n = 12 then [CHR 0x5C, CHR ''f'']
         else if n = 13 then [CHR 0x5C, CHR ''r'']
         else if n = 34 then [CHR 0x5C, CHR 0x22]
         else if n = 92 then [CHR 0x5C, CHR 0x5C]
         else if n < 32 then [CHR 0x5C, CHR ''u'', CHR ''0'', CHR ''0'', hex_digit (n div 16), hex_digit (n mod 16)]
         else [c])"

definition json_quote :: "string \<Rightarrow> string" where
  "json_quote s = [CHR 0x22] @ concat (map json_escape s) @ [CHR 0x22]"

fun join_commas :: "string list \<Rightarrow> string" where
  "join_commas [] = []"
| "join_commas [x] = x"
| "join_commas (x # y # ys) = x @ '','' @ join_commas (y # ys)"

text \<open>The TypeError of \<open>JSON.stringify\<close> on a \<open>BigInt\<close> (its stack is left out).\<close>

definition BigInt_TypeError :: js where
  "BigInt_TypeError =
     ErrorV \<lparr>name = ''TypeError'', message = ''Do not know how to serialize a BigInt'',
             constructor_name = ''TypeError'', stack = None\<rparr>"

text \<open>
  \<open>JSON.stringify(v)\<close>: it returns a text, returns \<open>undefined\<close> (\<open>Returned None\<close>), or
  raises. A property whose value is \<open>undefined\<close> is left out of an object, an
  \<open>undefined\<close> array element prints as \<open>null\<close>, an \<open>Error\<close> instance has no
  enumerable property of its own, and the first value that cannot be printed, in the
  order of traversal, raises.
\<close>

fun JSON_stringify :: "js \<Rightarrow> string option outcome"
  and stringify_elements :: "js list \<Rightarrow> string list outcome"
  and stringify_members :: "(string \<times> js) list \<Rightarrow> string list outcome" where
  "JSON_stringify Undefined = Returned None"
| "JSON_stringify Null = Returned (Some ''null'')"
| "JSON_stringify (Bool b) = Returned (Some (if b then ''true'' else ''false''))"
| "JSON_stringify (Num n) = Returned (Some (Number_toString n))"
| "JSON_stringify (Str s) = Returned (Some (json_quote s))"
| "JSON_stringify (Arr vs) =
     (case stringify_elements vs of
        Thrown e \<Rightarrow> Thrown e
      | Returned ts \<Rightarrow> Returned (Some (''['' @ join_commas ts @ '']'')))"
| "JSON_stringify (Obj kvs) =
     (case stringify_members kvs of
        Thrown e \<Rightarrow> Thrown e
      | Returned ts \<Rightarrow> Returned (Some (''{'' @ join_commas ts @ ''}'')))"
| "JSON_stringify (ErrorV e) = Returned (Some ''{}'')"
| "JSON_stringify (BigInt n) = Thrown BigInt_TypeError"
| "JSON_stringify (Unserializable e) = Thrown e"
| "stringify_elements [] = Returned []"
| "stringify_elements (v # vs) =
     (case JSON_stringify v of
        Thrown e \<Rightarrow> Thrown e
      | Returned t \<Rightarrow>
          (case stringify_elements vs of
             Thrown e \<Rightarrow> Thrown e
           | Returned ts \<Rightarrow> Returned ((case t of None \<Rightarrow> ''null'' | Some x \<Rightarrow> x) # ts)))"
| "stringify_members [] = Returned []"
| "stringify_members ((k, v) # kvs) =
     (case JSON_stringify v of
        Thrown e \<Rightarrow> Thrown e
      | Returned t \<Rightarrow>
          (case stringify_members kvs of
             Thrown e \<Rightarrow> Thrown e
           | Returned ts \<Rightarrow>
               Returned (case t of None \<Rightarrow> ts | Some x \<Rightarrow> (json_quote k @ '':'' @ x) # ts)))"

text \<open>
  \<open>json_text v\<close> is the text \<open>JSON.stringify(v)\<close> returns, for use where the call is
  known to return; \<open>serializable v\<close> says that it does not raise.
\<close>

definition json_text :: "js \<Rightarrow> string option" where
  "json_text v = (case JSON_stringify v of Returned t \<Rightarrow> t | Thrown e \<Rightarrow> None)"

definition serializable :: "js \<Rightarrow> bool" where
  "serializable v = (case JSON_stringify v of Returned t \<Rightarrow> True | Thrown e \<Rightarrow> False)"

section \<open>Configuration and endpoint URL (client.ts, frontend-client.ts)\<close>

text \<open>
  \<open>Required<MimosAnalyticsConfig>\<close> after the constructor has filled in the defaults
  (\<open>timeout: 5000, disabled: false\<close>). The frontend configuration has no \<open>apiKey\<close>.
\<close>

record MimosAnalyticsConfig =
  baseUrl :: string
  projectId :: string
  apiKey :: string
  timeout :: nat
  disabled :: bool

record MimosFrontendConfig =
  fe_baseUrl :: string
  fe_projectId :: string
  fe_timeout :: nat
  fe_disabled :: bool

text \<open>
  \<open>baseUrl.replace(/\/$/, "")\<close>: the pattern matches one slash at the very end of the
  string (no \<open>m\<close> flag, no \<open>g\<close> flag), so at most one character is removed.
\<close>

definition strip_trailing_slash :: "string \<Rightarrow> string" where
  "strip_trailing_slash s = (if s \<noteq> [] \<and> last s = CHR ''/'' then butlast s else s)"

definition backendMetricsUrl :: "MimosAnalyticsConfig \<Rightarrow> string" where
  "backendMetricsUrl config = strip_trailing_slash (baseUrl config) @ ''/v1/backend-metrics/write/''"

definition frontendMetricsUrl :: "MimosFrontendConfig \<Rightarrow> string" where
  "frontendMetricsUrl config = strip_trailing_slash (fe_baseUrl config) @ ''/v1/frontend-metrics/write/''"

section \<open>Error classification (tracker.ts)\<close>

datatype ToolErrorType = validation | timeout_error | internal | external | rate_limit | unknown

fun ToolErrorType_string :: "ToolErrorType \<Rightarrow> string" where
  "ToolErrorType_string validation = ''validation''"
| "ToolErrorType_string timeout_error = ''timeout''"
| "ToolErrorType_string internal = ''internal''"
| "ToolErrorType_string external = ''external''"
| "ToolErrorType_string rate_limit = ''rate_limit''"
| "ToolErrorType_string unknown = ''unknown''"

text \<open>\<open>ToolCallTracker.inferErrorType\<close>.\<close>

fun inferErrorType :: "js \<Rightarrow> ToolErrorType" where
  "inferErrorType (ErrorV error) =
     (let message = toLowerCase (message error);
          name = toLowerCase (name error)
      in if str_includes name ''timeout'' \<or> str_includes message ''timeout''
            \<or> str_includes message ''timed out''
         then timeout_error
         else if str_includes name ''validation'' \<or> str_includes message ''invalid''
            \<or> str_includes message ''required''
         then validation
         else if str_includes message ''rate limit'' \<or> str_includes message ''too many requests''
            \<or> str_includes message ''429''
         then rate_limit
         else if str_includes message ''network'' \<or> str_includes message ''fetch''
            \<or> str_includes message ''econnrefused''
         then external
         else internal)"
| "inferErrorType _ = unknown"

text \<open>\<open>options?.errorType || this.inferErrorType(error)\<close>: every \<open>ToolErrorType\<close> is a
  non-empty string, so a supplied type always wins.\<close>

fun resolveErrorType :: "ToolErrorType option \<Rightarrow> js \<Rightarrow> ToolErrorType" where
  "resolveErrorType (Some t) error = t"
| "resolveErrorType None error = inferErrorType error"

section \<open>The transport and the observable world\<close>

text \<open>
  The host's \<open>fetch\<close>, \<open>Date.now()\<close>, \<open>Math.random()\<close> and the console are not
  code of the SDK. A call to \<open>fetch\<close> is recorded in \<open>requests\<close>; how it settles is
  the environment's choice \<open>net\<close>: \<open>Inl e\<close> when the promise rejects with \<open>e\<close> (an
  \<open>AbortError\<close> when the timeout fires first), \<open>Inr response\<close> otherwise, where
  \<open>response_text\<close> is how \<open>response.text()\<close> settles.
\<close>

record http_request =
  url :: string
  http_method :: string
  headers :: "(string \<times> string) list"
  body :: "string option"

record http_response =
  ok :: bool
  status :: nat
  response_text :: "js + string"

type_synonym network = "http_request \<Rightarrow> js + http_response"

datatype console_line = Console_error string "js option" | Console_warn string

record world =
  requests :: "http_request list"
  console :: "console_line list"

text \<open>
  The readings a call takes from its environment: \<open>now\<close> is \<open>Date.now()\<close> where a
  timestamp is taken, \<open>now_id\<close> the reading inside the id generator, \<open>now_start\<close> and
  \<open>now_end\<close> the two readings of \<open>track\<close>, and \<open>random36\<close> the text of
  \<open>Math.random().toString(36)\<close>.
\<close>

record runtime =
  net :: network
  now :: nat
  now_id :: nat
  now_start :: nat
  now_end :: nat
  random36 :: string

fun is_AbortError :: "js \<Rightarrow> bool" where
  "is_AbortError (ErrorV e) = (name e = ''AbortError'')"
| "is_AbortError _ = False"

section \<open>Backend tracker: class \<open>MimosAnalytics\<close> (client.ts)\<close>

record MetricsRequest =
  event_type :: string
  metric_value :: "string option"

definition MetricsRequest_js :: "MetricsRequest \<Rightarrow> js" where
  "MetricsRequest_js request =
     Obj [(''event_type'', Str (event_type request)),
          (''metric_value'', opt_str (metric_value request))]"

text \<open>
  The argument of \<open>fetch\<close> in \<open>MimosAnalytics.sendMetric\<close>, given the body text, and
  the same by the request it carries.
\<close>

definition backend_post :: "MimosAnalyticsConfig \<Rightarrow> string option \<Rightarrow> http_request" where
  "backend_post config body_text =
     \<lparr>url = backendMetricsUrl config,
      http_method = ''POST'',
      headers = [(''Content-Type'', ''application/json''),
                 (''anon-project-id'', projectId config),
                 (''api-key'', apiKey config)],
      body = body_text\<rparr>"

definition backend_fetch :: "MimosAnalyticsConfig \<Rightarrow> MetricsRequest \<Rightarrow> http_request" where
  "backend_fetch config request = backend_post config (json_text (MetricsRequest_js request))"

text \<open>
  The \<open>try\<close> block of \<open>sendMetric\<close>, then the method with its \<open>catch\<close>. The
  body is printed inside the \<open>try\<close>, before \<open>fetch\<close> is called.
\<close>

definition sendMetric_try ::
    "MimosAnalyticsConfig \<Rightarrow> network \<Rightarrow> MetricsRequest \<Rightarrow> world \<Rightarrow> unit outcome \<times> world" where
  "sendMetric_try config nw request w =
     (case JSON_stringify (MetricsRequest_js request) of
        Thrown error \<Rightarrow> (Thrown error, w)
      | Returned body_text \<Rightarrow>
          (let call = backend_post config body_text;
               w1 = w\<lparr>requests := requests w @ [call]\<rparr>
           in case nw call of
                Inl error \<Rightarrow> (Thrown error, w1)
              | Inr response \<Rightarrow>
                  if \<not> ok response then
                    (case response_text response of
                       Inl error \<Rightarrow> (Thrown error, w1)
                     | Inr errorBody \<Rightarrow>
                         (Returned (),
                          w1\<lparr>console := console w1 @
                             [Console_error (''[MimosAnalytics] Failed to send metric: ''
                                @ decimal (status response) @ '' '' @ errorBody) None]\<rparr>))
                  else (Returned (), w1)))"

definition sendMetric ::
    "MimosAnalyticsConfig \<Rightarrow> network \<Rightarrow> MetricsRequest \<Rightarrow> world \<Rightarrow> unit outcome \<times> world" where
  "sendMetric config nw request w =
     (case sendMetric_try config nw request w of
        (Returned u, w') \<Rightarrow> (Returned (), w')
      | (Thrown error, w') \<Rightarrow>
          (Returned (),
           w'\<lparr>console := console w' @
              [if is_AbortError error
               then Console_error ''[MimosAnalytics] Request timed out'' None
               else Console_error ''[MimosAnalytics] Failed to send metric:'' (Some error)]\<rparr>))"

text \<open>
  \<open>trackToolCall\<close> and \<open>trackToolError\<close> print the payload themselves, outside
  \<open>sendMetric\<close>: a payload that cannot be printed rejects the call.
\<close>

definition trackToolCall ::
    "MimosAnalyticsConfig \<Rightarrow> network \<Rightarrow> js_object \<Rightarrow> world \<Rightarrow> unit outcome \<times> world" where
  "trackToolCall config nw payload w =
     (if disabled config then (Returned (), w)
      else case JSON_stringify (Obj payload) of
             Thrown error \<Rightarrow> (Thrown error, w)
           | Returned payload_text \<Rightarrow>
               sendMetric config nw
                 \<lparr>event_type = ''tool_call'', metric_value = payload_text\<rparr> w)"

definition trackToolError ::
    "MimosAnalyticsConfig \<Rightarrow> network \<Rightarrow> js_object \<Rightarrow> world \<Rightarrow> unit outcome \<times> world" where
  "trackToolError config nw payload w =
     (if disabled config then (Returned (), w)
      else case JSON_stringify (Obj payload) of
             Thrown error \<Rightarrow> (Thrown error, w)
           | Returned payload_text \<Rightarrow>
               sendMetric config nw
                 \<lparr>event_type = ''tool_error'', metric_value = payload_text\<rparr> w)"

record success_options =
  so_callId :: "string option"
  so_parameters :: "string option"
  so_responseSizeBytes :: "nat option"

definition trackSuccess ::
    "MimosAnalyticsConfig \<Rightarrow> runtime \<Rightarrow> string \<Rightarrow> int \<Rightarrow> success_options \<Rightarrow> world
      \<Rightarrow> unit outcome \<times> world" where
  "trackSuccess config rt toolName durationMs options w =
     trackToolCall config (net rt)
       [(''tool_name'', Str toolName),
        (''duration_ms'', Num durationMs),
        (''status'', Str ''success''),
        (''timestamp_ms'', Num (int (now rt))),
        (''call_id'', opt_str (so_callId options)),
        (''parameters'', opt_str (so_parameters options)),
        (''response_size_bytes'', opt_num (map_option int (so_responseSizeBytes options)))] w"

record error_options =
  eo_callId :: "string option"
  eo_parameters :: "string option"
  eo_errorType :: "ToolErrorType option"
  eo_errorCode :: "string option"

text \<open>
  The three values \<open>trackError\<close> reads off its \<open>error\<close> argument:
  \<open>errorMessage\<close>, \<open>errorCode\<close> and \<open>stackTrace\<close>.
\<close>

definition trackError_extract :: "js \<Rightarrow> string option \<Rightarrow> js \<times> string \<times> string option" where
  "trackError_extract error errorCode_option =
     (let errorMessage = (case error of ErrorV e \<Rightarrow> Str (message e) | _ \<Rightarrow> error);
          errorCode = or_else errorCode_option
                        (case error of ErrorV e \<Rightarrow> constructor_name e | _ \<Rightarrow> ''Error'');
          stackTrace = (case error of ErrorV e \<Rightarrow> stack e | _ \<Rightarrow> None)
      in (errorMessage, errorCode, stackTrace))"

definition trackError ::
    "MimosAnalyticsConfig \<Rightarrow> runtime \<Rightarrow> string \<Rightarrow> js \<Rightarrow> error_options \<Rightarrow> world
      \<Rightarrow> unit outcome \<times> world" where
  "trackError config rt toolName error options w =
     (case trackError_extract error (eo_errorCode options) of
        (errorMessage, errorCode, stackTrace) \<Rightarrow>
          trackToolError config (net rt)
            [(''tool_name'', Str toolName),
             (''error_code'', Str errorCode),
             (''error_message'', errorMessage),
             (''error_type'',
                Str (case eo_errorType options of
                       Some t \<Rightarrow> ToolErrorType_string t | None \<Rightarrow> ''unknown'')),
             (''timestamp_ms'', Num (int (now rt))),
             (''call_id'', opt_str (eo_callId options)),
             (''parameters'', opt_str (eo_parameters options)),
             (''stack_trace'', opt_str stackTrace)] w)"

text \<open>The public tracking methods of the backend tracker, as one call type.\<close>

datatype backend_call =
    TrackToolCall js_object
  | TrackToolError js_object
  | TrackSuccess string int success_options
  | TrackError string js error_options

fun backend_step ::
    "MimosAnalyticsConfig \<Rightarrow> runtime \<Rightarrow> backend_call \<Rightarrow> world \<Rightarrow> unit outcome \<times> world" where
  "backend_step config rt (TrackToolCall payload) w = trackToolCall config (net rt) payload w"
| "backend_step config rt (TrackToolError payload) w = trackToolError config (net rt) payload w"
| "backend_step config rt (TrackSuccess toolName durationMs options) w =
     trackSuccess config rt toolName durationMs options w"
| "backend_step config rt (TrackError toolName error options) w =
     trackError config rt toolName error options w"

section \<open>Call-tracking wrapper: class \<open>ToolCallTracker\<close> (tracker.ts)\<close>

definition generateCallId :: "nat \<Rightarrow> string \<Rightarrow> string" where
  "generateCallId date_now rnd36 = decimal date_now @ ''-'' @ substring rnd36 2 11"

record track_options =
  callId :: "string option"
  parameters :: js
  errorType :: "ToolErrorType option"

text \<open>\<open>promise.catch(() => {})\<close>: the report's own outcome is dropped.\<close>

definition catch_ignore :: "unit outcome \<times> world \<Rightarrow> world" where
  "catch_ignore r = snd r"

text \<open>
  \<open>options?.parameters ? JSON.stringify(options.parameters) : undefined\<close>, which
  \<open>track\<close> and \<open>trackWithMetadata\<close> evaluate before their \<open>try\<close>.
\<close>

definition parameters_text :: "js \<Rightarrow> string option outcome" where
  "parameters_text p = (if truthy p then JSON_stringify p else Returned None)"

text \<open>
  \<open>JSON.stringify(result).length\<close> inside its own \<open>try\<close>: when the call raises, or
  returns \<open>undefined\<close> (so that \<open>.length\<close> raises a TypeError), the \<open>catch\<close> leaves
  \<open>responseSizeBytes\<close> unset.
\<close>

definition response_size :: "js \<Rightarrow> nat option" where
  "response_size v =
     (case JSON_stringify v of
        Returned (Some t) \<Rightarrow> Some (length t)
      | Returned None \<Rightarrow> None
      | Thrown e \<Rightarrow> None)"

text \<open>
  \<open>track\<close>. The operation \<open>fn\<close> is given by how its promise settles once it is
  called. When the parameters cannot be printed, \<open>track\<close> rejects with what
  \<open>JSON.stringify\<close> raised: \<open>fn\<close> is not called and nothing is reported.
\<close>

definition track ::
    "MimosAnalyticsConfig \<Rightarrow> runtime \<Rightarrow> string \<Rightarrow> js outcome \<Rightarrow> track_options \<Rightarrow> world
      \<Rightarrow> js outcome \<times> world" where
  "track config rt toolName fn options w =
     (let callId = or_else (callId options) (generateCallId (now_id rt) (random36 rt))
      in case parameters_text (parameters options) of
           Thrown error \<Rightarrow> (Thrown error, w)
         | Returned parametersStr \<Rightarrow>
             (let startTime = now_start rt
              in case fn of
                   Returned result \<Rightarrow>
                     (let durationMs = int (now_end rt) - int startTime;
                          responseSizeBytes = response_size result;
                          w' = catch_ignore
                                 (trackSuccess config rt toolName durationMs
                                    \<lparr>so_callId = Some callId, so_parameters = parametersStr,
                                     so_responseSizeBytes = responseSizeBytes\<rparr> w)
                      in (Returned result, w'))
                 | Thrown error \<Rightarrow>
                     (let durationMs = int (now_end rt) - int startTime;
                          w' = catch_ignore
                                 (trackError config rt toolName error
                                    \<lparr>eo_callId = Some callId, eo_parameters = parametersStr,
                                     eo_errorType =
                                       Some (resolveErrorType (errorType options) error),
                                     eo_errorCode = None\<rparr> w)
                      in (Thrown error, w'))))"

record TrackedCallResult =
  tc_result :: js
  tc_durationMs :: int
  tc_callId :: string

definition trackWithMetadata ::
    "MimosAnalyticsConfig \<Rightarrow> runtime \<Rightarrow> string \<Rightarrow> js outcome \<Rightarrow> track_options \<Rightarrow> world
      \<Rightarrow> TrackedCallResult outcome \<times> world" where
  "trackWithMetadata config rt toolName fn options w =
     (let callId = or_else (callId options) (generateCallId (now_id rt) (random36 rt))
      in case parameters_text (parameters options) of
           Thrown error \<Rightarrow> (Thrown error, w)
         | Returned parametersStr \<Rightarrow>
             (let startTime = now_start rt
              in case fn of
                   Returned result \<Rightarrow>
                     (let durationMs = int (now_end rt) - int startTime;
                          responseSizeBytes = response_size result;
                          w' = catch_ignore
                                 (trackSuccess config rt toolName durationMs
                                    \<lparr>so_callId = Some callId, so_parameters = parametersStr,
                                     so_responseSizeBytes = responseSizeBytes\<rparr> w)
                      in (Returned 
                         \<lparr>tc_result = result, tc_durationMs = durationMs, tc_callId = callId\<rparr>, w'))
                 | Thrown error \<Rightarrow>
                     (let durationMs = int (now_end rt) - int startTime;
                          w' = catch_ignore
                                 (trackError config rt toolName error
                                    \<lparr>eo_callId = Some callId, eo_parameters = parametersStr,
                                     eo_errorType =
                                       Some (resolveErrorType (errorType options) error),
                                     eo_errorCode = None\<rparr> w)
                      in (Thrown error, w'))))"

text \<open>
  \<open>wrap\<close>: the wrapped function applied to \<open>args\<close>. \<open>fn\<close> maps the argument list to
  how its promise settles.
\<close>

definition wrap ::
    "MimosAnalyticsConfig \<Rightarrow> runtime \<Rightarrow> string \<Rightarrow> (js list \<Rightarrow> js outcome)
      \<Rightarrow> ToolErrorType option \<Rightarrow> js list \<Rightarrow> world \<Rightarrow> js outcome \<times> world" where
  "wrap config rt toolName fn options_errorType args w =
     track config rt toolName (fn args)
       \<lparr>callId = None,
        parameters = (if length args = 1 then args ! 0 else Arr args),
        errorType = options_errorType\<rparr> w"

section \<open>Frontend tracker: class \<open>MimosFrontendAnalytics\<close> (frontend-client.ts)\<close>

datatype FrontendEventType =
    button_click | motion_swipe | motion_scroll | session_start | session_end
  | element_focus | app_load_success | app_load_error

fun FrontendEventType_string :: "FrontendEventType \<Rightarrow> string" where
  "FrontendEventType_string button_click = ''button_click''"
| "FrontendEventType_string motion_swipe = ''motion_swipe''"
| "FrontendEventType_string motion_scroll = ''motion_scroll''"
| "FrontendEventType_string session_start = ''session_start''"
| "FrontendEventType_string session_end = ''session_end''"
| "FrontendEventType_string element_focus = ''element_focus''"
| "FrontendEventType_string app_load_success = ''app_load_success''"
| "FrontendEventType_string app_load_error = ''app_load_error''"

datatype exit_reason = user_exit | background | timeout_exit | crash | logout

fun exit_reason_string :: "exit_reason \<Rightarrow> string" where
  "exit_reason_string user_exit = ''user_exit''"
| "exit_reason_string background = ''background''"
| "exit_reason_string timeout_exit = ''timeout''"
| "exit_reason_string crash = ''crash''"
| "exit_reason_string logout = ''logout''"

text \<open>The mutable fields of a \<open>MimosFrontendAnalytics\<close> instance, and the constructor's values.\<close>

record frontend_state =
  sessionId :: "string option"
  sessionStartTime :: "nat option"
  screenHistory :: "string list"
  eventCount :: nat

definition initial_state :: frontend_state where
  "initial_state = \<lparr>sessionId = None, sessionStartTime = None, screenHistory = [], eventCount = 0\<rparr>"

text \<open>
  A payload object built by the caller for one of the typed interfaces with a
  \<open>screen_name\<close>: its screen name, and its other properties in the caller's order,
  those before the \<open>screen_name\<close> key and those after it.
\<close>

record screen_payload =
  screen_name :: string
  props_before :: js_object
  props_after :: js_object

definition screen_payload_js :: "screen_payload \<Rightarrow> js" where
  "screen_payload_js payload =
     Obj (props_before payload @ (''screen_name'', Str (screen_name payload)) # props_after payload)"

text \<open>
  The argument of \<open>startSession\<close> is the caller's object. \<open>payload.session_id\<close> is
  read at its declared type \<open>string | undefined\<close>; the object literal
  \<open>{...payload, session_id: v}\<close> writes \<open>v\<close> at the key's place when the caller's
  object has the key, and as a last property otherwise.
\<close>

definition ss_session_id :: "js_object \<Rightarrow> string option" where
  "ss_session_id payload =
     (case map_of payload ''session_id'' of Some (Str i) \<Rightarrow> Some i | _ \<Rightarrow> None)"

fun set_property :: "js_object \<Rightarrow> string \<Rightarrow> js \<Rightarrow> js_object" where
  "set_property [] k v = [(k, v)]"
| "set_property ((k', v') # kvs) k v =
     (if k' = k then (k, v) # kvs else (k', v') # set_property kvs k v)"

record button_options =
  buttonText :: "string option"
  click_x :: "int option"
  click_y :: "int option"

record load_success_options =
  isColdStart :: "bool option"
  networkType :: "string option"
  ttfbMs :: "int option"
  resourceCount :: "int option"
  cacheHit :: "bool option"

record load_error_options =
  le_errorType :: "string option"
  le_errorCode :: "string option"
  httpStatus :: "int option"
  retryCount :: "int option"

text \<open>
  The argument of \<open>fetch\<close> in \<open>MimosFrontendAnalytics.sendMetric\<close>, given the body
  text, and the same by the event it carries.
\<close>

definition frontend_post :: "MimosFrontendConfig \<Rightarrow> string option \<Rightarrow> http_request" where
  "frontend_post config body_text =
     \<lparr>url = frontendMetricsUrl config,
      http_method = ''POST'',
      headers = [(''Content-Type'', ''application/json''),
                 (''anon-project-id'', fe_projectId config)],
      body = body_text\<rparr>"

definition frontend_fetch :: "MimosFrontendConfig \<Rightarrow> FrontendEventType \<Rightarrow> js \<Rightarrow> http_request" where
  "frontend_fetch config eventType payload =
     frontend_post config
       (json_text (Obj [(''event_type'', Str (FrontendEventType_string eventType)),
                        (''metric_value'', opt_str (json_text payload))]))"

text \<open>
  The \<open>try\<close> block of the frontend \<open>sendMetric\<close>: the payload and then the envelope
  are printed inside it, before \<open>fetch\<close> is called.
\<close>

definition fe_sendMetric_try ::
    "MimosFrontendConfig \<Rightarrow> network \<Rightarrow> FrontendEventType \<Rightarrow> js \<Rightarrow> world \<Rightarrow> unit outcome \<times> world" where
  "fe_sendMetric_try config nw eventType payload w =
     (case JSON_stringify payload of
        Thrown error \<Rightarrow> (Thrown error, w)
      | Returned payload_text \<Rightarrow>
          (case JSON_stringify
                  (Obj [(''event_type'', Str (FrontendEventType_string eventType)),
                        (''metric_value'', opt_str payload_text)]) of
             Thrown error \<Rightarrow> (Thrown error, w)
           | Returned body_text \<Rightarrow>
               (let call = frontend_post config body_text;
                    w1 = w\<lparr>requests := requests w @ [call]\<rparr>
                in case nw call of
                     Inl error \<Rightarrow> (Thrown error, w1)
                   | Inr response \<Rightarrow>
                       if \<not> ok response then
                         (case response_text response of
                            Inl error \<Rightarrow> (Thrown error, w1)
                          | Inr errorBody \<Rightarrow>
                              (Returned (),
                               w1\<lparr>console := console w1 @
                                  [Console_error
                                     (''[MimosFrontendAnalytics] Failed to send metric: ''
                                        @ decimal (status response) @ '' '' @ errorBody)
                                     None]\<rparr>))
                       else (Returned (), w1))))"

definition fe_sendMetric ::
    "MimosFrontendConfig \<Rightarrow> network \<Rightarrow> FrontendEventType \<Rightarrow> js \<Rightarrow> world \<Rightarrow> unit outcome \<times> world" where
  "fe_sendMetric config nw eventType payload w =
     (if fe_disabled config then (Returned (), w)
      else case fe_sendMetric_try config nw eventType payload w of
             (Returned u, w') \<Rightarrow> (Returned (), w')
           | (Thrown error, w') \<Rightarrow>
               (Returned (),
                w'\<lparr>console := console w' @
                   [if is_AbortError error
                    then Console_error ''[MimosFrontendAnalytics] Request timed out'' None
                    else Console_error ''[MimosFrontendAnalytics] Failed to send metric:''
                           (Some error)]\<rparr>))"

definition generateSessionId :: "nat \<Rightarrow> string \<Rightarrow> string" where
  "generateSessionId date_now rnd36 = decimal date_now @ ''-'' @ substring rnd36 2 11"

text \<open>
  \<open>updateScreenHistory\<close>: on an empty history \<open>screenHistory[-1]\<close> is \<open>undefined\<close>,
  which differs from every string.
\<close>

definition updateScreenHistory :: "string \<Rightarrow> frontend_state \<Rightarrow> frontend_state" where
  "updateScreenHistory screenName s =
     (if screenHistory s = [] \<or> last (screenHistory s) \<noteq> screenName
      then s\<lparr>screenHistory := screenHistory s @ [screenName]\<rparr> else s)"

text \<open>\<open>this.eventCount++; this.updateScreenHistory(screenName)\<close>, the head of every counted method.\<close>

definition count_event :: "string \<Rightarrow> frontend_state \<Rightarrow> frontend_state" where
  "count_event screenName s = updateScreenHistory screenName (s\<lparr>eventCount := eventCount s + 1\<rparr>)"

definition startSession ::
    "MimosFrontendConfig \<Rightarrow> runtime \<Rightarrow> js_object \<Rightarrow> frontend_state \<Rightarrow> world
      \<Rightarrow> string outcome \<times> frontend_state \<times> world" where
  "startSession config rt payload s w =
     (let sessionId = or_else (ss_session_id payload) (generateSessionId (now_id rt) (random36 rt));
          s' = s\<lparr>sessionId := Some sessionId, sessionStartTime := Some (now rt),
                 screenHistory := [], eventCount := 0\<rparr>
      in case fe_sendMetric config (net rt) session_start
                (Obj (set_property payload ''session_id'' (Str sessionId))) w of
           (Returned u, w') \<Rightarrow> (Returned sessionId, s', w')
         | (Thrown e, w') \<Rightarrow> (Thrown e, s', w'))"

text \<open>
  \<open>endSession\<close>. The guard \<open>!this.sessionId || !this.sessionStartTime\<close> is also true for
  the empty string and for the number 0.
\<close>

definition no_active_session :: "frontend_state \<Rightarrow> bool" where
  "no_active_session s =
     ((case sessionId s of None \<Rightarrow> True | Some i \<Rightarrow> i = [])
      \<or> (case sessionStartTime s of None \<Rightarrow> True | Some t \<Rightarrow> t = 0))"

definition session_end_payload :: "runtime \<Rightarrow> exit_reason \<Rightarrow> frontend_state \<Rightarrow> js" where
  "session_end_payload rt exitReason s =
     Obj [(''session_id'', opt_str (sessionId s)),
          (''session_duration_ms'',
             Num (int (now rt) - int (case sessionStartTime s of Some t \<Rightarrow> t | None \<Rightarrow> 0))),
          (''exit_reason'', Str (exit_reason_string exitReason)),
          (''screens_visited'', Num (int (length (screenHistory s)))),
          (''total_events'', Num (int (eventCount s))),
          (''last_screen'',
             (if screenHistory s = [] then Undefined else Str (last (screenHistory s))))]"

definition endSession ::
    "MimosFrontendConfig \<Rightarrow> runtime \<Rightarrow> exit_reason \<Rightarrow> frontend_state \<Rightarrow> world
      \<Rightarrow> unit outcome \<times> frontend_state \<times> world" where
  "endSession config rt exitReason s w =
     (if no_active_session s
      then (Returned (), s,
            w\<lparr>console := console w @
               [Console_warn ''[MimosFrontendAnalytics] No active session to end'']\<rparr>)
      else case fe_sendMetric config (net rt) session_end
                  (session_end_payload rt exitReason s) w of
             (Returned u, w') \<Rightarrow>
               (Returned (), s\<lparr>sessionId := None, sessionStartTime := None\<rparr>, w')
           | (Thrown e, w') \<Rightarrow> (Thrown e, s, w'))"

definition getSessionId :: "frontend_state \<Rightarrow> string option" where
  "getSessionId s = sessionId s"

definition trackButtonClick ::
    "MimosFrontendConfig \<Rightarrow> runtime \<Rightarrow> string \<Rightarrow> string \<Rightarrow> button_options \<Rightarrow> frontend_state
      \<Rightarrow> world \<Rightarrow> unit outcome \<times> frontend_state \<times> world" where
  "trackButtonClick config rt buttonId screenName options s w =
     (let s' = count_event screenName s;
          r = fe_sendMetric config (net rt) button_click
                (Obj [(''button_id'', Str buttonId),
                      (''screen_name'', Str screenName),
                      (''button_text'', opt_str (buttonText options)),
                      (''x_position'', opt_num (click_x options)),
                      (''y_position'', opt_num (click_y options)),
                      (''timestamp_ms'', Num (int (now rt)))]) w
      in (fst r, s', snd r))"

text \<open>
  The methods that count the event, record the screen and send the caller's payload as
  it is: \<open>trackSwipe\<close>, \<open>trackScroll\<close>, \<open>trackElementFocus\<close>, \<open>sendButtonClick\<close>,
  \<open>sendAppLoadSuccess\<close> and \<open>sendAppLoadError\<close> differ in the event type only.
\<close>

definition send_counted ::
    "MimosFrontendConfig \<Rightarrow> runtime \<Rightarrow> FrontendEventType \<Rightarrow> screen_payload \<Rightarrow> frontend_state
      \<Rightarrow> world \<Rightarrow> unit outcome \<times> frontend_state \<times> world" where
  "send_counted config rt eventType payload s w =
     (let s' = count_event (screen_name payload) s;
          r = fe_sendMetric config (net rt) eventType (screen_payload_js payload) w
      in (fst r, s', snd r))"

definition trackSwipe where "trackSwipe config rt = send_counted config rt motion_swipe"
definition trackScroll where "trackScroll config rt = send_counted config rt motion_scroll"
definition trackElementFocus where "trackElementFocus config rt = send_counted config rt element_focus"
definition sendButtonClick where "sendButtonClick config rt = send_counted config rt button_click"
definition sendAppLoadSuccess where "sendAppLoadSuccess config rt = send_counted config rt app_load_success"
definition sendAppLoadError where "sendAppLoadError config rt = send_counted config rt app_load_error"

definition trackLoadSuccess ::
    "MimosFrontendConfig \<Rightarrow> runtime \<Rightarrow> string \<Rightarrow> int \<Rightarrow> load_success_options \<Rightarrow> frontend_state
      \<Rightarrow> world \<Rightarrow> unit outcome \<times> frontend_state \<times> world" where
  "trackLoadSuccess config rt screenName loadTimeMs options s w =
     (let s' = count_event screenName s;
          r = fe_sendMetric config (net rt) app_load_success
                (Obj [(''screen_name'', Str screenName),
                      (''load_time_ms'', Num loadTimeMs),
                      (''is_cold_start'',
                         Bool (case isColdStart options of Some b \<Rightarrow> b | None \<Rightarrow> False)),
                      (''network_type'', opt_str (networkType options)),
                      (''ttfb_ms'', opt_num (ttfbMs options)),
                      (''resource_count'', opt_num (resourceCount options)),
                      (''cache_hit'', opt_bool (cacheHit options))]) w
      in (fst r, s', snd r))"

text \<open>The three values \<open>trackLoadError\<close> reads off its \<open>error\<close> argument.\<close>

definition trackLoadError_extract :: "js \<Rightarrow> string option \<Rightarrow> js \<times> string \<times> string option" where
  "trackLoadError_extract error errorCode_option =
     (let errorMessage = (case error of ErrorV e \<Rightarrow> Str (message e) | _ \<Rightarrow> error);
          errorCode = or_else errorCode_option
                        (case error of ErrorV e \<Rightarrow> name e | _ \<Rightarrow> ''Error'');
          stackTrace = (case error of ErrorV e \<Rightarrow> stack e | _ \<Rightarrow> None)
      in (errorMessage, errorCode, stackTrace))"

definition trackLoadError ::
    "MimosFrontendConfig \<Rightarrow> runtime \<Rightarrow> string \<Rightarrow> js \<Rightarrow> load_error_options \<Rightarrow> frontend_state
      \<Rightarrow> world \<Rightarrow> unit outcome \<times> frontend_state \<times> world" where
  "trackLoadError config rt screenName error options s w =
     (let s' = count_event screenName s
      in case trackLoadError_extract error (le_errorCode options) of
           (errorMessage, errorCode, stackTrace) \<Rightarrow>
             (let r = fe_sendMetric config (net rt) app_load_error
                        (Obj [(''screen_name'', Str screenName),
                              (''error_code'', Str errorCode),
                              (''error_message'', errorMessage),
                              (''error_type'', Str (or_else (le_errorType options) ''unknown'')),
                              (''http_status'', opt_num (httpStatus options)),
                              (''retry_count'', opt_num (retryCount options)),
                              (''stack_trace'', opt_str stackTrace)]) w
              in (fst r, s', snd r)))"

definition sendSessionStart ::
    "MimosFrontendConfig \<Rightarrow> runtime \<Rightarrow> js_object \<Rightarrow> frontend_state \<Rightarrow> world
      \<Rightarrow> unit outcome \<times> frontend_state \<times> world" where
  "sendSessionStart config rt payload s w =
     (let r = fe_sendMetric config (net rt) session_start (Obj payload) w in (fst r, s, snd r))"

definition sendSessionEnd ::
    "MimosFrontendConfig \<Rightarrow> runtime \<Rightarrow> js_object \<Rightarrow> frontend_state \<Rightarrow> world
      \<Rightarrow> unit outcome \<times> frontend_state \<times> world" where
  "sendSessionEnd config rt payload s w =
     (let r = fe_sendMetric config (net rt) session_end (Obj payload) w in (fst r, s, snd r))"

subsection \<open>Sequences of calls on one tracker\<close>

datatype frontend_call =
    StartSession js_object
  | EndSession exit_reason
  | GetSessionId
  | TrackButtonClick string string button_options
  | TrackSwipe screen_payload
  | TrackScroll screen_payload
  | TrackElementFocus screen_payload
  | TrackLoadSuccess string int load_success_options
  | TrackLoadError string js load_error_options
  | SendButtonClick screen_payload
  | SendSessionStart js_object
  | SendSessionEnd js_object
  | SendAppLoadSuccess screen_payload
  | SendAppLoadError screen_payload

text \<open>What the call hands back: a string, \<open>null\<close>, or nothing (\<open>undefined\<close>).\<close>

fun void_result :: "unit outcome \<times> frontend_state \<times> world \<Rightarrow> js outcome \<times> frontend_state \<times> world" where
  "void_result (Returned u, s, w) = (Returned Undefined, s, w)"
| "void_result (Thrown e, s, w) = (Thrown e, s, w)"

fun frontend_step ::
    "MimosFrontendConfig \<Rightarrow> runtime \<Rightarrow> frontend_call \<Rightarrow> frontend_state \<Rightarrow> world
      \<Rightarrow> js outcome \<times> frontend_state \<times> world" where
  "frontend_step config rt (StartSession payload) s w =
     (case startSession config rt payload s w of
        (Returned i, s', w') \<Rightarrow> (Returned (Str i), s', w')
      | (Thrown e, s', w') \<Rightarrow> (Thrown e, s', w'))"
| "frontend_step config rt (EndSession exitReason) s w =
     void_result (endSession config rt exitReason s w)"
| "frontend_step config rt GetSessionId s w =
     (Returned (case getSessionId s of None \<Rightarrow> Null | Some i \<Rightarrow> Str i), s, w)"
| "frontend_step config rt (TrackButtonClick buttonId screenName options) s w =
     void_result (trackButtonClick config rt buttonId screenName options s w)"
| "frontend_step config rt (TrackSwipe payload) s w = void_result (trackSwipe config rt payload s w)"
| "frontend_step config rt (TrackScroll payload) s w = void_result (trackScroll config rt payload s w)"
| "frontend_step config rt (TrackElementFocus payload) s w =
     void_result (trackElementFocus config rt payload s w)"
| "frontend_step config rt (TrackLoadSuccess screenName loadTimeMs options) s w =
     void_result (trackLoadSuccess config rt screenName loadTimeMs options s w)"
| "frontend_step config rt (TrackLoadError screenName error options) s w =
     void_result (trackLoadError config rt screenName error options s w)"
| "frontend_step config rt (SendButtonClick payload) s w =
     void_result (sendButtonClick config rt payload s w)"
| "frontend_step config rt (SendSessionStart payload) s w =
     void_result (sendSessionStart config rt payload s w)"
| "frontend_step config rt (SendSessionEnd payload) s w =
     void_result (sendSessionEnd config rt payload s w)"
| "frontend_step config rt (SendAppLoadSuccess payload) s w =
     void_result (sendAppLoadSuccess config rt payload s w)"
| "frontend_step config rt (SendAppLoadError payload) s w =
     void_result (sendAppLoadError config rt payload s w)"

text \<open>
  A sequence of awaited calls, each with its own readings of the environment. A call
  that raised would end the sequence (none does).
\<close>

fun frontend_run ::
    "MimosFrontendConfig \<Rightarrow> (runtime \<times> frontend_call) list \<Rightarrow> frontend_state \<Rightarrow> world
      \<Rightarrow> (js + unit) \<times> frontend_state \<times> world" where
  "frontend_run config [] s w = (Inr (), s, w)"
| "frontend_run config ((rt, c) # cs) s w =
     (case frontend_step config rt c s w of
        (Returned v, s', w') \<Rightarrow> frontend_run config cs s' w'
      | (Thrown e, s', w') \<Rightarrow> (Inl e, s', w'))"

section \<open>Specification-side definitions\<close>

text \<open>
  The definitions of this section follow the words of the specification; the theorems
  below compare them with the definitions translated from the source.
\<close>

subsection \<open>Error classification as an ordered rule table\<close>

text \<open>
  Each rule: the class, the terms looked for in the lower-cased name, and the terms
  looked for in the lower-cased message. \<open>sublist t s\<close> is the library's "\<open>t\<close> occurs
  in \<open>s\<close> as a contiguous run".
\<close>

definition classification_rules :: "(ToolErrorType \<times> string list \<times> string list) list" where
  "classification_rules =
     [(timeout_error, [''timeout''], [''timeout'', ''timed out'']),
      (validation, [''validation''], [''invalid'', ''required'']),
      (rate_limit, [], [''rate limit'', ''too many requests'', ''429'']),
      (external, [], [''network'', ''fetch'', ''econnrefused''])]"

fun first_match ::
    "(ToolErrorType \<times> string list \<times> string list) list \<Rightarrow> string \<Rightarrow> string \<Rightarrow> ToolErrorType" where
  "first_match [] n m = internal"
| "first_match ((t, name_terms, message_terms) # rules) n m =
     (if list_ex (\<lambda>term. sublist term n) name_terms
         \<or> list_ex (\<lambda>term. sublist term m) message_terms
      then t else first_match rules n m)"

definition classify_by_rules :: "js \<Rightarrow> ToolErrorType" where
  "classify_by_rules v =
     (case v of
        ErrorV e \<Rightarrow>
          first_match classification_rules (toLowerCase (name e)) (toLowerCase (message e))
      | _ \<Rightarrow> unknown)"

subsection \<open>Sessions\<close>

text \<open>
  The screen name a call records, for the calls that count as tracking calls; the
  session calls (managed or raw) and the accessor record none.
\<close>

fun tracked_screen :: "frontend_call \<Rightarrow> string option" where
  "tracked_screen (TrackButtonClick buttonId screenName options) = Some screenName"
| "tracked_screen (TrackSwipe payload) = Some (screen_name payload)"
| "tracked_screen (TrackScroll payload) = Some (screen_name payload)"
| "tracked_screen (TrackElementFocus payload) = Some (screen_name payload)"
| "tracked_screen (TrackLoadSuccess screenName loadTimeMs options) = Some screenName"
| "tracked_screen (TrackLoadError screenName error options) = Some screenName"
| "tracked_screen (SendButtonClick payload) = Some (screen_name payload)"
| "tracked_screen (SendAppLoadSuccess payload) = Some (screen_name payload)"
| "tracked_screen (SendAppLoadError payload) = Some (screen_name payload)"
| "tracked_screen (SendSessionStart payload) = None"
| "tracked_screen (SendSessionEnd payload) = None"
| "tracked_screen (StartSession payload) = None"
| "tracked_screen (EndSession exitReason) = None"
| "tracked_screen GetSessionId = None"

text \<open>The screen names of the tracking calls of a sequence, in order.\<close>

definition tracked_screens :: "(runtime \<times> frontend_call) list \<Rightarrow> string list" where
  "tracked_screens calls = List.map_filter (\<lambda>(rt, c). tracked_screen c) calls"

text \<open>A call made between \<open>startSession\<close> and the following \<open>endSession\<close>.\<close>

fun in_session :: "frontend_call \<Rightarrow> bool" where
  "in_session (StartSession payload) = False"
| "in_session (EndSession exitReason) = False"
| "in_session c = True"

fun is_StartSession :: "frontend_call \<Rightarrow> bool" where
  "is_StartSession (StartSession payload) = True"
| "is_StartSession c = False"

text \<open>
  The number of distinct-from-previous screen transitions: the entries of the sequence
  that differ from the entry before them (the first entry has none before it).
\<close>

definition distinct_from_previous :: "string list \<Rightarrow> nat" where
  "distinct_from_previous xs =
     length (filter (\<lambda>i. i = 0 \<or> xs ! i \<noteq> xs ! (i - 1)) [0..<length xs])"

text \<open>The history after one more screen name, as a function of lists.\<close>

definition push_screen :: "string list \<Rightarrow> string \<Rightarrow> string list" where
  "push_screen h n = (if h = [] \<or> last h \<noteq> n then h @ [n] else h)"

text \<open>
  A session from \<open>startSession\<close> (readings \<open>rt0\<close>) through the calls to
  \<open>endSession\<close> (readings \<open>rt1\<close>): the world before and after the closing call.
\<close>

definition session_worlds ::
    "MimosFrontendConfig \<Rightarrow> runtime \<Rightarrow> js_object \<Rightarrow> (runtime \<times> frontend_call) list
      \<Rightarrow> runtime \<Rightarrow> exit_reason \<Rightarrow> frontend_state \<Rightarrow> world \<Rightarrow> world \<times> world" where
  "session_worlds config rt0 payload calls rt1 exitReason s0 w0 =
     (case startSession config rt0 payload s0 w0 of
        (r1, s1, w1) \<Rightarrow>
          (case frontend_run config calls s1 w1 of
             (r2, s2, w2) \<Rightarrow>
               (case endSession config rt1 exitReason s2 w2 of
                  (r3, s3, w3) \<Rightarrow> (w2, w3))))"

subsection \<open>The double-encoded envelope\<close>

text \<open>
  The text \<open>{"event_type":"<et>","metric_value":"<escaped payload text>"}\<close>: an object
  with exactly these two members, the second a JSON string that holds the payload's JSON
  text.
\<close>

definition envelope_text :: "string \<Rightarrow> string \<Rightarrow> string" where
  "envelope_text et payload_text =
     ''{'' @ json_quote ''event_type'' @ '':'' @ json_quote et @ '',''
       @ json_quote ''metric_value'' @ '':'' @ json_quote payload_text @ ''}''"

definition double_encoded :: "http_request \<Rightarrow> bool" where
  "double_encoded r =
     (\<exists>et payload payload_text.
        JSON_stringify (Obj payload) = Returned (Some payload_text)
        \<and> body r = Some (envelope_text et payload_text))"

subsection \<open>Parameter capture of \<open>wrap\<close>\<close>


subsection \<open>A concrete environment for the instances\<close>

definition example_config :: MimosAnalyticsConfig where
  "example_config =
     \<lparr>baseUrl = ''http://localhost:8080/'', projectId = ''my-mcp-server'', apiKey = ''key'',
      timeout = 5000, disabled = False\<rparr>"

definition example_frontend_config :: MimosFrontendConfig where
  "example_frontend_config =
     \<lparr>fe_baseUrl = ''http://localhost:8080'', fe_projectId = ''my-app'',
      fe_timeout = 5000, fe_disabled = False\<rparr>"

text \<open>A transport on which every delivery times out.\<close>

definition example_network :: network where
  "example_network request =
     Inl (ErrorV \<lparr>name = ''AbortError'', message = ''This operation was aborted'',
                  constructor_name = ''DOMException'', stack = None\<rparr>)"

definition example_runtime :: runtime where
  "example_runtime =
     \<lparr>net = example_network, now = 1000, now_id = 1000, now_start = 1001, now_end = 1051,
      random36 = ''0.4fzyo82mvyr''\<rparr>"

definition empty_world :: world where
  "empty_world = \<lparr>requests = [], console = []\<rparr>"

definition on_screen :: "string \<Rightarrow> screen_payload" where
  "on_screen n = \<lparr>screen_name = n, props_before = [], props_after = []\<rparr>"

section \<open>Properties\<close>

section \<open>Delivery never fails its caller\<close>

lemma envelope_is_printed:
  "JSON_stringify (Obj [(''event_type'', Str et), (''metric_value'', opt_str mv)]) =
     Returned (Some (case mv of
                       None \<Rightarrow> ''{'' @ json_quote ''event_type'' @ '':'' @ json_quote et @ ''}''
                     | Some t \<Rightarrow> envelope_text et t))"
  by (cases mv) (simp_all add: envelope_text_def)

lemma envelope_Str_is_printed:
  "JSON_stringify (Obj [(''event_type'', Str et), (''metric_value'', Str t)]) =
     Returned (Some (envelope_text et t))"
  by (simp add: envelope_text_def)

lemma MetricsRequest_is_printed:
  "JSON_stringify (MetricsRequest_js request) = Returned (json_text (MetricsRequest_js request))"
  by (simp add: json_text_def MetricsRequest_js_def envelope_is_printed del: JSON_stringify.simps)

lemma sendMetric_returns: "fst (sendMetric config nw request w) = Returned ()"
  by (simp add: sendMetric_def sendMetric_try_def Let_def MetricsRequest_is_printed
      split: sum.splits prod.splits outcome.splits)

lemma sendMetric_requests:
  "requests (snd (sendMetric config nw request w)) = requests w @ [backend_fetch config request]"
  by (simp add: sendMetric_def sendMetric_try_def Let_def MetricsRequest_is_printed
      backend_fetch_def split: sum.splits)

lemma fe_sendMetric_returns: "fst (fe_sendMetric config nw eventType payload w) = Returned ()"
  by (simp add: fe_sendMetric_def fe_sendMetric_try_def Let_def
      split: sum.splits prod.splits outcome.splits)

lemma fe_sendMetric_requests:
  "requests (snd (fe_sendMetric config nw eventType payload w)) =
     requests w @
       (if fe_disabled config \<or> \<not> serializable payload then []
        else [frontend_fetch config eventType payload])"
proof (cases "JSON_stringify payload")
  case (Thrown e)
  then show ?thesis
    by (simp add: fe_sendMetric_def fe_sendMetric_try_def serializable_def)
next
  case (Returned t)
  then have "json_text payload = t" and "serializable payload"
    by (simp_all add: json_text_def serializable_def)
  with Returned show ?thesis
    by (simp add: fe_sendMetric_def fe_sendMetric_try_def Let_def frontend_fetch_def
        envelope_is_printed json_text_def del: JSON_stringify.simps split: sum.splits)
qed

lemma fe_sendMetric_not_thrown [simp]:
  "fe_sendMetric config nw eventType payload w \<noteq> (Thrown e, w')"
  using fe_sendMetric_returns [of config nw eventType payload w] by auto

section \<open>The screen history\<close>

lemma remdups_adj_snoc: "remdups_adj (xs @ [a]) = push_screen (remdups_adj xs) a"
proof (cases xs rule: rev_cases)
  case Nil
  then show ?thesis by (simp add: push_screen_def)
next
  case (snoc ys b)
  then show ?thesis
    by (simp add: push_screen_def remdups_adj_append_two del: remdups_adj.simps)
qed

lemma foldl_push_screen: "foldl push_screen (remdups_adj ys) xs = remdups_adj (ys @ xs)"
proof (induction xs arbitrary: ys)
  case Nil
  then show ?case by simp
next
  case (Cons a xs)
  have "foldl push_screen (remdups_adj ys) (a # xs) = foldl push_screen (remdups_adj (ys @ [a])) xs"
    by (simp add: remdups_adj_snoc)
  also have "\<dots> = remdups_adj ((ys @ [a]) @ xs)" by (rule Cons.IH)
  finally show ?case by simp
qed

lemma distinct_from_previous_snoc:
  "distinct_from_previous (xs @ [a]) =
     distinct_from_previous xs + (if xs = [] \<or> last xs \<noteq> a then 1 else 0)"
proof -
  let ?P = "\<lambda>zs i. i = 0 \<or> zs ! i \<noteq> zs ! (i - 1)"
  have same: "filter (?P (xs @ [a])) [0..<length xs] = filter (?P xs) [0..<length xs]"
    by (rule filter_cong) (auto simp: nth_append)
  have at_end: "?P (xs @ [a]) (length xs) \<longleftrightarrow> xs = [] \<or> last xs \<noteq> a"
    by (cases xs rule: rev_cases) (auto simp: nth_append)
  show ?thesis
    unfolding distinct_from_previous_def
    using same at_end by (simp del: upt_Suc add: upt_Suc_append)
qed

lemma length_remdups_adj_transitions: "length (remdups_adj xs) = distinct_from_previous xs"
proof (induction xs rule: rev_induct)
  case Nil
  then show ?case by (simp add: distinct_from_previous_def)
next
  case (snoc a xs)
  then show ?case
    by (auto simp: remdups_adj_snoc push_screen_def distinct_from_previous_snoc)
qed

lemma count_event_fields:
  "sessionId (count_event n s) = sessionId s"
  "sessionStartTime (count_event n s) = sessionStartTime s"
  "eventCount (count_event n s) = Suc (eventCount s)"
  "screenHistory (count_event n s) = push_screen (screenHistory s) n"
  by (simp_all add: count_event_def updateScreenHistory_def push_screen_def)

text \<open>What a call between session start and session end does to the tracker's fields.\<close>

lemma frontend_step_returns: "\<exists>v. fst (frontend_step config rt c s w) = Returned v"
  by (cases c)
     (auto simp: startSession_def endSession_def trackButtonClick_def send_counted_def
        trackSwipe_def trackScroll_def trackElementFocus_def sendButtonClick_def
        sendAppLoadSuccess_def sendAppLoadError_def trackLoadSuccess_def trackLoadError_def
        sendSessionStart_def sendSessionEnd_def Let_def fe_sendMetric_returns
        split: prod.splits outcome.splits)

lemma frontend_step_state:
  assumes "in_session c"
  shows "fst (snd (frontend_step config rt c s w)) =
     (case tracked_screen c of None \<Rightarrow> s | Some n \<Rightarrow> count_event n s)"
  using assms
  by (cases c)
     (auto simp: trackButtonClick_def send_counted_def
        trackSwipe_def trackScroll_def trackElementFocus_def sendButtonClick_def
        sendAppLoadSuccess_def sendAppLoadError_def trackLoadSuccess_def trackLoadError_def
        sendSessionStart_def sendSessionEnd_def Let_def fe_sendMetric_returns
        split: prod.splits outcome.splits)

lemma frontend_run_in_session:
  assumes "list_all (\<lambda>(rt, c). in_session c) calls"
  shows "fst (frontend_run config calls s w) = Inr ()
       \<and> fst (snd (frontend_run config calls s w)) =
           foldl (\<lambda>st n. count_event n st) s (tracked_screens calls)"
  using assms
proof (induction calls arbitrary: s w)
  case Nil
  then show ?case by (simp add: tracked_screens_def)
next
  case (Cons rc calls)
  obtain rt c where rc: "rc = (rt, c)" by (cases rc)
  from Cons.prems rc have c: "in_session c" and rest: "list_all (\<lambda>(rt, c). in_session c) calls"
    by simp_all
  obtain v s' w' where step: "frontend_step config rt c s w = (v, s', w')"
    by (cases "frontend_step config rt c s w")
  from frontend_step_returns [of config rt c s w] step obtain r where v: "v = Returned r"
    by auto
  from frontend_step_state [OF c, of config rt s w] step
  have s': "s' = (case tracked_screen c of None \<Rightarrow> s | Some n \<Rightarrow> count_event n s)"
    by simp
  have run: "frontend_run config (rc # calls) s w = frontend_run config calls s' w'"
    by (simp add: rc step v)
  have screens: "foldl (\<lambda>st n. count_event n st) s (tracked_screens (rc # calls)) =
      foldl (\<lambda>st n. count_event n st) s' (tracked_screens calls)"
    by (cases "tracked_screen c") (simp_all add: tracked_screens_def rc s')
  show ?case
    unfolding run screens by (rule Cons.IH [OF rest])
qed

lemma counted_fields:
  "sessionId (foldl (\<lambda>st n. count_event n st) s ns) = sessionId s"
  "sessionStartTime (foldl (\<lambda>st n. count_event n st) s ns) = sessionStartTime s"
  "eventCount (foldl (\<lambda>st n. count_event n st) s ns) = eventCount s + length ns"
  "screenHistory (foldl (\<lambda>st n. count_event n st) s ns) = foldl push_screen (screenHistory s) ns"
  by (induction ns arbitrary: s) (simp_all add: count_event_fields)

lemma decimal_not_empty: "decimal n \<noteq> []"
  by (subst decimal.simps) simp

lemma generateSessionId_not_empty: "generateSessionId d r \<noteq> []"
  by (simp add: generateSessionId_def decimal_not_empty)

lemma generateCallId_not_empty: "generateCallId d r \<noteq> []"
  by (simp add: generateCallId_def decimal_not_empty)

lemma or_else_not_empty: "d \<noteq> [] \<Longrightarrow> or_else a d \<noteq> []"
  by (cases a) simp_all

lemma startSession_state:
  "fst (snd (startSession config rt payload s w)) =
     \<lparr>sessionId = Some (or_else (ss_session_id payload) (generateSessionId (now_id rt) (random36 rt))),
      sessionStartTime = Some (now rt), screenHistory = [], eventCount = 0\<rparr>"
  by (simp add: startSession_def Let_def split: prod.splits outcome.splits)

section \<open>What each call sends\<close>

lemma Obj_serializable:
  "serializable (Obj payload) \<Longrightarrow> \<exists>t. JSON_stringify (Obj payload) = Returned (Some t)"
  by (simp add: serializable_def split: outcome.splits)

lemma frontend_fetch_double_encoded:
  assumes "serializable (Obj payload)"
  shows "double_encoded (frontend_fetch config eventType (Obj payload))"
proof -
  from Obj_serializable [OF assms] obtain t where t: "JSON_stringify (Obj payload) = Returned (Some t)"
    by blast
  then have "body (frontend_fetch config eventType (Obj payload)) =
      Some (envelope_text (FrontendEventType_string eventType) t)"
    by (simp add: frontend_fetch_def frontend_post_def json_text_def envelope_Str_is_printed
        del: JSON_stringify.simps)
  with t show ?thesis
    unfolding double_encoded_def by blast
qed

lemma backend_fetch_double_encoded:
  assumes "JSON_stringify (Obj payload) = Returned payload_text"
  shows "double_encoded (backend_fetch config \<lparr>event_type = et, metric_value = payload_text\<rparr>)"
proof -
  from assms obtain t where t: "payload_text = Some t"
    by (auto split: outcome.splits)
  then have "body (backend_fetch config \<lparr>event_type = et, metric_value = payload_text\<rparr>) =
      Some (envelope_text et t)"
    by (simp add: backend_fetch_def backend_post_def json_text_def MetricsRequest_js_def
        envelope_Str_is_printed del: JSON_stringify.simps)
  with t assms show ?thesis
    unfolding double_encoded_def by blast
qed

lemma fe_sendMetric_sends:
  "\<exists>new. requests (snd (fe_sendMetric config nw eventType (Obj payload) w)) = requests w @ new
     \<and> (fe_disabled config \<longrightarrow> new = []) \<and> list_all double_encoded new"
  by (simp add: fe_sendMetric_requests frontend_fetch_double_encoded del: JSON_stringify.simps)

lemma void_result_parts [simp]:
  "snd (snd (void_result r)) = snd (snd r)"
  "fst (snd (void_result r)) = fst (snd r)"
  by (cases r rule: void_result.cases; simp)+

lemma session_end_payload_Obj: "\<exists>payload. session_end_payload rt exitReason s = Obj payload"
  by (simp add: session_end_payload_def)

lemma startSession_world:
  "snd (snd (startSession config rt payload s w)) =
     snd (fe_sendMetric config (net rt) session_start
            (Obj (set_property payload ''session_id''
                    (Str (or_else (ss_session_id payload)
                            (generateSessionId (now_id rt) (random36 rt)))))) w)"
  by (simp add: startSession_def Let_def split: prod.splits outcome.splits)

lemma endSession_world:
  "snd (snd (endSession config rt exitReason s w)) =
     (if no_active_session s
      then w\<lparr>console := console w @
              [Console_warn ''[MimosFrontendAnalytics] No active session to end'']\<rparr>
      else snd (fe_sendMetric config (net rt) session_end
                  (session_end_payload rt exitReason s) w))"
  by (simp add: endSession_def split: prod.splits outcome.splits)

lemma frontend_step_world:
  "(\<exists>eventType payload. snd (snd (frontend_step config rt c s w)) =
        snd (fe_sendMetric config (net rt) eventType (Obj payload) w))
   \<or> requests (snd (snd (frontend_step config rt c s w))) = requests w"
proof (cases c)
  case (StartSession p)
  then have "snd (snd (frontend_step config rt c s w)) = snd (snd (startSession config rt p s w))"
    by (simp split: prod.splits outcome.splits)
  then show ?thesis
    unfolding startSession_world by blast
next
  case (EndSession r)
  obtain p where p: "session_end_payload rt r s = Obj p"
    using session_end_payload_Obj by blast
  from EndSession show ?thesis
    by (cases "no_active_session s") (auto simp: endSession_world p)
next
  case GetSessionId
  then show ?thesis by simp
next
  case (TrackButtonClick b n opts)
  then show ?thesis
    by (simp add: trackButtonClick_def Let_def) blast
next
  case (TrackSwipe p)
  then show ?thesis
    by (simp add: trackSwipe_def send_counted_def screen_payload_js_def Let_def) blast
next
  case (TrackScroll p)
  then show ?thesis
    by (simp add: trackScroll_def send_counted_def screen_payload_js_def Let_def) blast
next
  case (TrackElementFocus p)
  then show ?thesis
    by (simp add: trackElementFocus_def send_counted_def screen_payload_js_def Let_def) blast
next
  case (TrackLoadSuccess n t opts)
  then show ?thesis
    by (simp add: trackLoadSuccess_def Let_def) blast
next
  case (TrackLoadError n e opts)
  then show ?thesis
    by (simp add: trackLoadError_def Let_def split: prod.splits) blast
next
  case (SendButtonClick p)
  then show ?thesis
    by (simp add: sendButtonClick_def send_counted_def screen_payload_js_def Let_def) blast
next
  case (SendSessionStart p)
  then show ?thesis
    by (simp add: sendSessionStart_def Let_def) blast
next
  case (SendSessionEnd p)
  then show ?thesis
    by (simp add: sendSessionEnd_def Let_def) blast
next
  case (SendAppLoadSuccess p)
  then show ?thesis
    by (simp add: sendAppLoadSuccess_def send_counted_def screen_payload_js_def Let_def) blast
next
  case (SendAppLoadError p)
  then show ?thesis
    by (simp add: sendAppLoadError_def send_counted_def screen_payload_js_def Let_def) blast
qed

lemma frontend_step_sends:
  "\<exists>new. requests (snd (snd (frontend_step config rt c s w))) = requests w @ new
     \<and> (fe_disabled config \<longrightarrow> new = []) \<and> list_all double_encoded new"
  using frontend_step_world [of config rt c s w]
proof
  assume "\<exists>eventType payload. snd (snd (frontend_step config rt c s w)) =
        snd (fe_sendMetric config (net rt) eventType (Obj payload) w)"
  then obtain eventType payload where "snd (snd (frontend_step config rt c s w)) =
        snd (fe_sendMetric config (net rt) eventType (Obj payload) w)"
    by blast
  then show ?thesis
    using fe_sendMetric_sends [of config "net rt" eventType payload w] by simp
next
  assume "requests (snd (snd (frontend_step config rt c s w))) = requests w"
  then show ?thesis by simp
qed

lemma trackToolCall_requests:
  "requests (snd (trackToolCall config nw payload w)) = requests w @
     (if disabled config then []
      else case JSON_stringify (Obj payload) of
             Thrown e \<Rightarrow> []
           | Returned payload_text \<Rightarrow>
               [backend_fetch config
                  \<lparr>event_type = ''tool_call'', metric_value = payload_text\<rparr>])"
  by (simp add: trackToolCall_def sendMetric_requests del: JSON_stringify.simps
      split: outcome.splits)

lemma trackToolError_requests:
  "requests (snd (trackToolError config nw payload w)) = requests w @
     (if disabled config then []
      else case JSON_stringify (Obj payload) of
             Thrown e \<Rightarrow> []
           | Returned payload_text \<Rightarrow>
               [backend_fetch config
                  \<lparr>event_type = ''tool_error'', metric_value = payload_text\<rparr>])"
  by (simp add: trackToolError_def sendMetric_requests del: JSON_stringify.simps
      split: outcome.splits)

lemma trackToolCall_sends:
  "\<exists>new. requests (snd (trackToolCall config nw payload w)) = requests w @ new
     \<and> (disabled config \<longrightarrow> new = []) \<and> list_all double_encoded new"
  by (cases "JSON_stringify (Obj payload)")
     (simp_all add: trackToolCall_requests backend_fetch_double_encoded
        del: JSON_stringify.simps)

lemma trackToolError_sends:
  "\<exists>new. requests (snd (trackToolError config nw payload w)) = requests w @ new
     \<and> (disabled config \<longrightarrow> new = []) \<and> list_all double_encoded new"
  by (cases "JSON_stringify (Obj payload)")
     (simp_all add: trackToolError_requests backend_fetch_double_encoded
        del: JSON_stringify.simps)

lemma trackSuccess_sends:
  "\<exists>new. requests (snd (trackSuccess config rt toolName durationMs options w)) = requests w @ new
     \<and> (disabled config \<longrightarrow> new = []) \<and> list_all double_encoded new"
  unfolding trackSuccess_def by (rule trackToolCall_sends)

lemma trackError_sends:
  "\<exists>new. requests (snd (trackError config rt toolName error options w)) = requests w @ new
     \<and> (disabled config \<longrightarrow> new = []) \<and> list_all double_encoded new"
  unfolding trackError_def by (simp split: prod.splits del: JSON_stringify.simps)
     (blast intro: trackToolError_sends)

lemma backend_step_disabled:
  "disabled config \<Longrightarrow> backend_step config rt c w = (Returned (), w)"
  by (cases c)
     (simp_all add: trackToolCall_def trackToolError_def trackSuccess_def trackError_def
        split: prod.splits)


section \<open>The wrapper\<close>

text \<open>
  Once the parameters have been printed, \<open>track\<close> settles as the operation did; when
  printing them raises, it rejects with that value and leaves the world untouched.
\<close>

lemma track_outcome:
  "parameters_text (parameters options) = Returned p \<Longrightarrow>
     fst (track config rt toolName fn options w) = fn"
  by (cases fn) (simp_all add: track_def Let_def)

lemma track_rejects:
  "parameters_text (parameters options) = Thrown e \<Longrightarrow>
     track config rt toolName fn options w = (Thrown e, w)"
  by (simp add: track_def Let_def)

lemma track_world:
  "snd (track config rt toolName fn options w) =
     (case parameters_text (parameters options) of
        Thrown e \<Rightarrow> w
      | Returned parametersStr \<Rightarrow>
          (case fn of
             Returned result \<Rightarrow>
               snd (trackSuccess config rt toolName (int (now_end rt) - int (now_start rt))
                      \<lparr>so_callId = Some (or_else (callId options)
                                           (generateCallId (now_id rt) (random36 rt))),
                       so_parameters = parametersStr,
                       so_responseSizeBytes = response_size result\<rparr> w)
           | Thrown error \<Rightarrow>
               snd (trackError config rt toolName error
                      \<lparr>eo_callId = Some (or_else (callId options)
                                           (generateCallId (now_id rt) (random36 rt))),
                       eo_parameters = parametersStr,
                       eo_errorType = Some (resolveErrorType (errorType options) error),
                       eo_errorCode = None\<rparr> w)))"
  by (cases "parameters_text (parameters options)"; cases fn)
     (simp_all add: track_def Let_def catch_ignore_def)

lemma trackWithMetadata_world:
  "snd (trackWithMetadata config rt toolName fn options w) =
     snd (track config rt toolName fn options w)"
  by (cases "parameters_text (parameters options)"; cases fn)
     (simp_all add: track_def trackWithMetadata_def Let_def)

lemma track_sends:
  "\<exists>new. requests (snd (track config rt toolName fn options w)) = requests w @ new
     \<and> (disabled config \<longrightarrow> new = []) \<and> list_all double_encoded new"
proof (cases "parameters_text (parameters options)")
  case (Thrown e)
  then show ?thesis by (simp add: track_world)
next
  case (Returned p)
  then show ?thesis
    by (cases fn) (simp_all add: track_world trackSuccess_sends trackError_sends)
qed

section \<open>Sessions that are not active\<close>

lemma frontend_step_keeps_no_session:
  assumes "\<not> is_StartSession c" and "no_active_session s"
  shows "no_active_session (fst (snd (frontend_step config rt c s w)))"
proof (cases "in_session c")
  case True
  from frontend_step_state [OF True, of config rt s w] assms(2) show ?thesis
    by (cases "tracked_screen c") (simp_all add: no_active_session_def count_event_fields)
next
  case False
  with assms(1) obtain r where "c = EndSession r"
    by (cases c) simp_all
  with assms(2) show ?thesis
    by (simp add: endSession_def)
qed

lemma frontend_run_keeps_no_session:
  assumes "list_all (\<lambda>(rt, c). \<not> is_StartSession c) calls" and "no_active_session s"
  shows "no_active_session (fst (snd (frontend_run config calls s w)))"
  using assms
proof (induction calls arbitrary: s w)
  case Nil
  then show ?case by simp
next
  case (Cons rc calls)
  obtain rt c where rc: "rc = (rt, c)" by (cases rc)
  obtain v s' w' where step: "frontend_step config rt c s w = (v, s', w')"
    by (cases "frontend_step config rt c s w")
  from Cons.prems rc have c: "\<not> is_StartSession c"
    and rest: "list_all (\<lambda>(rt, c). \<not> is_StartSession c) calls"
    by simp_all
  from frontend_step_keeps_no_session [OF c Cons.prems(2), of config rt w] step
  have s': "no_active_session s'" by simp
  show ?case
  proof (cases v)
    case (Returned r)
    then show ?thesis
      using Cons.IH [OF rest s', of w'] by (simp add: rc step)
  next
    case (Thrown e)
    then show ?thesis
      using s' by (simp add: rc step)
  qed
qed

lemma endSession_leaves_no_session:
  "no_active_session (fst (snd (endSession config rt exitReason s w)))"
  by (simp add: endSession_def no_active_session_def split: prod.splits outcome.splits)

section \<open>Error classification\<close>

lemma str_includes_sublist: "str_includes s t = sublist t s"
  by (induction s) (auto simp: sublist_Cons_right)

lemma inferErrorType_rules: "inferErrorType v = classify_by_rules v"
  by (cases v)
     (simp_all add: classify_by_rules_def classification_rules_def str_includes_sublist Let_def)

lemma toLowerCase_examples:
  "toLowerCase ''Error'' = ''error''"
  "toLowerCase ''Request timed out'' = ''request timed out''"
  "toLowerCase ''REQUEST Timed Out'' = ''request timed out''"
  "toLowerCase ''Invalid input required'' = ''invalid input required''"
  "toLowerCase ''429 too many requests'' = ''429 too many requests''"
  "toLowerCase ''fetch failed: ECONNREFUSED'' = ''fetch failed: econnrefused''"
  "toLowerCase ''boom'' = ''boom''"
  by code_simp+

lemma trackError_requests:
  "requests (snd (trackError config rt toolName error options w)) = requests w @
     (if disabled config then []
      else case JSON_stringify
                  (Obj [(''tool_name'', Str toolName),
                        (''error_code'',
                           Str (fst (snd (trackError_extract error (eo_errorCode options))))),
                        (''error_message'', fst (trackError_extract error (eo_errorCode options))),
                        (''error_type'',
                           Str (case eo_errorType options of
                                  Some t \<Rightarrow> ToolErrorType_string t | None \<Rightarrow> ''unknown'')),
                        (''timestamp_ms'', Num (int (now rt))),
                        (''call_id'', opt_str (eo_callId options)),
                        (''parameters'', opt_str (eo_parameters options)),
                        (''stack_trace'',
                           opt_str (snd (snd (trackError_extract error
                                                (eo_errorCode options)))))]) of
             Thrown e \<Rightarrow> []
           | Returned payload_text \<Rightarrow>
               [backend_fetch config
                  \<lparr>event_type = ''tool_error'', metric_value = payload_text\<rparr>])"
  by (simp add: trackError_def trackToolError_requests split: prod.splits
      del: JSON_stringify.simps)

text \<open>
  Claim C1. Without an explicit \<open>errorType\<close> the class is \<open>inferErrorType\<close> of the
  thrown value, and that class is the \<open>error_type\<close> of the report \<open>track\<close> sends
  (a report is sent when the tracker is enabled and the parameters and the payload can
  be printed).
  That function is the first match of the ordered rule table on the
  lower-cased name and message (so it reads the error through \<open>toLowerCase\<close> only: two
  errors whose names and messages agree up to case get the same class), every value that
  is not an \<open>Error\<close> instance is \<open>unknown\<close>, and the five example messages, on a
  plain \<open>Error\<close>, give \<open>timeout\<close>, \<open>validation\<close>, \<open>rate_limit\<close>, \<open>external\<close> and
  \<open>internal\<close>.
\<close>

theorem inferErrorType_classification:
  "resolveErrorType None v = inferErrorType v
   \<and> requests (snd (track config rt toolName (Thrown v) (options\<lparr>errorType := None\<rparr>) w)) =
       requests w @
       (if disabled config then []
        else case parameters_text (parameters options) of
               Thrown e \<Rightarrow> []
             | Returned parametersStr \<Rightarrow>
                 (case JSON_stringify
                         (Obj [(''tool_name'', Str toolName),
                               (''error_code'',
                                  Str (case v of ErrorV err \<Rightarrow> constructor_name err
                                               | _ \<Rightarrow> ''Error'')),
                               (''error_message'',
                                  (case v of ErrorV err \<Rightarrow> Str (message err) | _ \<Rightarrow> v)),
                               (''error_type'', Str (ToolErrorType_string (inferErrorType v))),
                               (''timestamp_ms'', Num (int (now rt))),
                               (''call_id'',
                                  Str (or_else (callId options)
                                         (generateCallId (now_id rt) (random36 rt)))),
                               (''parameters'', opt_str parametersStr),
                               (''stack_trace'',
                                  opt_str (case v of ErrorV err \<Rightarrow> stack err
                                                   | _ \<Rightarrow> None))]) of
                    Thrown e \<Rightarrow> []
                  | Returned payload_text \<Rightarrow>
                      [backend_fetch config
                         \<lparr>event_type = ''tool_error'', metric_value = payload_text\<rparr>]))
   \<and> inferErrorType v = classify_by_rules v
   \<and> (toLowerCase (name e) = toLowerCase (name e')
        \<and> toLowerCase (message e) = toLowerCase (message e')
        \<longrightarrow> inferErrorType (ErrorV e) = inferErrorType (ErrorV e'))
   \<and> ((\<forall>err. v \<noteq> ErrorV err) \<longrightarrow> inferErrorType v = unknown)
   \<and> inferErrorType (ErrorV \<lparr>name = ''Error'', message = ''Request timed out'',
          constructor_name = c, stack = st\<rparr>) = timeout_error
   \<and> inferErrorType (ErrorV \<lparr>name = ''Error'', message = ''Invalid input required'',
          constructor_name = c, stack = st\<rparr>) = validation
   \<and> inferErrorType (ErrorV \<lparr>name = ''Error'', message = ''429 too many requests'',
          constructor_name = c, stack = st\<rparr>) = rate_limit
   \<and> inferErrorType (ErrorV \<lparr>name = ''Error'', message = ''fetch failed: ECONNREFUSED'',
          constructor_name = c, stack = st\<rparr>) = external
   \<and> inferErrorType (ErrorV \<lparr>name = ''Error'', message = ''boom'',
          constructor_name = c, stack = st\<rparr>) = internal"
proof -
  have insensitive: "toLowerCase (name e) = toLowerCase (name e')
        \<and> toLowerCase (message e) = toLowerCase (message e')
        \<longrightarrow> inferErrorType (ErrorV e) = inferErrorType (ErrorV e')"
    by (simp add: Let_def)
  have not_error: "(\<forall>err. v \<noteq> ErrorV err) \<longrightarrow> inferErrorType v = unknown"
    by (cases v) simp_all
  have examples:
    "inferErrorType (ErrorV \<lparr>name = ''Error'', message = ''Request timed out'',
          constructor_name = c, stack = st\<rparr>) = timeout_error"
    "inferErrorType (ErrorV \<lparr>name = ''Error'', message = ''Invalid input required'',
          constructor_name = c, stack = st\<rparr>) = validation"
    "inferErrorType (ErrorV \<lparr>name = ''Error'', message = ''429 too many requests'',
          constructor_name = c, stack = st\<rparr>) = rate_limit"
    "inferErrorType (ErrorV \<lparr>name = ''Error'', message = ''fetch failed: ECONNREFUSED'',
          constructor_name = c, stack = st\<rparr>) = external"
    "inferErrorType (ErrorV \<lparr>name = ''Error'', message = ''boom'',
          constructor_name = c, stack = st\<rparr>) = internal"
    by (simp_all add: toLowerCase_examples Let_def)
  have report: "requests (snd (track config rt toolName (Thrown v) (options\<lparr>errorType := None\<rparr>) w)) =
       requests w @
       (if disabled config then []
        else case parameters_text (parameters options) of
               Thrown e \<Rightarrow> []
             | Returned parametersStr \<Rightarrow>
                 (case JSON_stringify
                         (Obj [(''tool_name'', Str toolName),
                               (''error_code'',
                                  Str (case v of ErrorV err \<Rightarrow> constructor_name err
                                               | _ \<Rightarrow> ''Error'')),
                               (''error_message'',
                                  (case v of ErrorV err \<Rightarrow> Str (message err) | _ \<Rightarrow> v)),
                               (''error_type'', Str (ToolErrorType_string (inferErrorType v))),
                               (''timestamp_ms'', Num (int (now rt))),
                               (''call_id'',
                                  Str (or_else (callId options)
                                         (generateCallId (now_id rt) (random36 rt)))),
                               (''parameters'', opt_str parametersStr),
                               (''stack_trace'',
                                  opt_str (case v of ErrorV err \<Rightarrow> stack err
                                                   | _ \<Rightarrow> None))]) of
                    Thrown e \<Rightarrow> []
                  | Returned payload_text \<Rightarrow>
                      [backend_fetch config
                         \<lparr>event_type = ''tool_error'', metric_value = payload_text\<rparr>]))"
    by (cases "parameters_text (parameters options)")
       (simp_all add: track_world trackError_requests trackError_extract_def
          del: JSON_stringify.simps inferErrorType.simps)
  show ?thesis
    using insensitive not_error examples inferErrorType_rules [of v] report
    by (simp del: JSON_stringify.simps inferErrorType.simps)
qed

theorem inferErrorType_classification_witness:
  "inferErrorType (Str ''Request timed out'') = unknown
   \<and> inferErrorType (ErrorV \<lparr>name = ''Error'', message = ''REQUEST Timed Out'',
          constructor_name = ''Error'', stack = None\<rparr>) = timeout_error"
proof -
  let ?shouted = "\<lparr>name = ''Error'', message = ''REQUEST Timed Out'',
          constructor_name = ''Error'', stack = None\<rparr>"
  let ?plain = "\<lparr>name = ''Error'', message = ''Request timed out'',
          constructor_name = ''Error'', stack = None\<rparr>"
  have same: "toLowerCase (name ?shouted) = toLowerCase (name ?plain)
        \<and> toLowerCase (message ?shouted) = toLowerCase (message ?plain)"
    and not_error: "\<forall>err. Str ''Request timed out'' \<noteq> ErrorV err"
    by (simp_all add: toLowerCase_examples)
  have "inferErrorType (Str ''Request timed out'') = unknown"
    and "inferErrorType (ErrorV ?shouted) = inferErrorType (ErrorV ?plain)"
    and "inferErrorType (ErrorV ?plain) = timeout_error"
    using same not_error
      inferErrorType_classification
        [where v = "Str ''Request timed out''" and e = ?shouted and e' = ?plain
           and c = "''Error''" and st = None]
    by blast+
  then show ?thesis
    by (simp del: inferErrorType.simps)
qed

text \<open>
  Claim C2. A session is opened by \<open>startSession\<close>, any sequence of calls other than
  \<open>startSession\<close> and \<open>endSession\<close> follows, and \<open>endSession\<close> closes it. The closing
  call then sends exactly one \<open>session_end\<close> request (none when the tracker is disabled
  or the start reading of the clock was 0), whose payload has \<open>screens_visited\<close> = the
  number of recorded screen names that differ from the one before, \<open>total_events\<close> = the
  number of tracking calls (the raw session sends and the accessor excluded), and
  \<open>last_screen\<close> = the last recorded screen name, left out when there is none.
\<close>

theorem session_end_payload_summary:
  assumes "list_all (\<lambda>(rt, c). in_session c) calls"
  shows "(case session_worlds config rt0 payload calls rt1 exitReason s0 w0 of
            (w2, w3) \<Rightarrow>
              requests w3 = requests w2 @
                (if fe_disabled config \<or> now rt0 = 0 then []
                 else [frontend_fetch config session_end
                         (Obj [(''session_id'',
                                  Str (or_else (ss_session_id payload)
                                         (generateSessionId (now_id rt0) (random36 rt0)))),
                               (''session_duration_ms'', Num (int (now rt1) - int (now rt0))),
                               (''exit_reason'', Str (exit_reason_string exitReason)),
                               (''screens_visited'',
                                  Num (int (distinct_from_previous (tracked_screens calls)))),
                               (''total_events'', Num (int (length (tracked_screens calls)))),
                               (''last_screen'',
                                  (if tracked_screens calls = [] then Undefined
                                   else Str (last (tracked_screens calls))))])]))"
proof -
  let ?sid = "or_else (ss_session_id payload) (generateSessionId (now_id rt0) (random36 rt0))"
  let ?ns = "tracked_screens calls"
  obtain r1 s1 w1 where start: "startSession config rt0 payload s0 w0 = (r1, s1, w1)"
    by (cases "startSession config rt0 payload s0 w0")
  obtain r2 s2 w2 where run: "frontend_run config calls s1 w1 = (r2, s2, w2)"
    by (cases "frontend_run config calls s1 w1")
  obtain r3 s3 w3 where fin: "endSession config rt1 exitReason s2 w2 = (r3, s3, w3)"
    by (cases "endSession config rt1 exitReason s2 w2")
  from startSession_state [of config rt0 payload s0 w0] start
  have s1: "s1 = \<lparr>sessionId = Some ?sid, sessionStartTime = Some (now rt0),
                  screenHistory = [], eventCount = 0\<rparr>"
    by simp
  from frontend_run_in_session [OF assms, of config s1 w1] run
  have s2: "s2 = foldl (\<lambda>st n. count_event n st) s1 ?ns"
    by simp
  have sid: "sessionId s2 = Some ?sid" and t0: "sessionStartTime s2 = Some (now rt0)"
    and cnt: "eventCount s2 = length ?ns"
    by (simp_all add: s2 counted_fields s1)
  have "screenHistory s2 = foldl push_screen (remdups_adj []) ?ns"
    by (simp add: s2 counted_fields s1)
  then have hist: "screenHistory s2 = remdups_adj ?ns"
    by (simp only: foldl_push_screen append_Nil)
  have nonempty: "?sid \<noteq> []"
    by (rule or_else_not_empty) (rule generateSessionId_not_empty)
  have guard: "no_active_session s2 \<longleftrightarrow> now rt0 = 0"
    by (simp add: no_active_session_def sid t0 nonempty)
  have payload_eq: "session_end_payload rt1 exitReason s2 =
      Obj [(''session_id'', Str ?sid),
           (''session_duration_ms'', Num (int (now rt1) - int (now rt0))),
           (''exit_reason'', Str (exit_reason_string exitReason)),
           (''screens_visited'', Num (int (distinct_from_previous ?ns))),
           (''total_events'', Num (int (length ?ns))),
           (''last_screen'', (if ?ns = [] then Undefined else Str (last ?ns)))]"
    by (simp add: session_end_payload_def sid t0 cnt hist length_remdups_adj_transitions)
  have "requests w3 = requests w2 @
      (if fe_disabled config \<or> now rt0 = 0 then []
       else [frontend_fetch config session_end (session_end_payload rt1 exitReason s2)])"
  proof (cases "now rt0 = 0")
    case True
    with guard fin show ?thesis by (auto simp: endSession_def)
  next
    case False
    with guard have active: "\<not> no_active_session s2" by simp
    obtain u w' where sent: "fe_sendMetric config (net rt1) session_end
        (session_end_payload rt1 exitReason s2) w2 = (u, w')"
      by (cases "fe_sendMetric config (net rt1) session_end (session_end_payload rt1 exitReason s2) w2")
    have "serializable (session_end_payload rt1 exitReason s2)"
      by (cases "sessionId s2")
         (simp_all add: serializable_def session_end_payload_def)
    with fe_sendMetric_requests [of config "net rt1" session_end
        "session_end_payload rt1 exitReason s2" w2] sent
    have "requests w' = requests w2 @
        (if fe_disabled config then []
         else [frontend_fetch config session_end (session_end_payload rt1 exitReason s2)])"
      by simp
    moreover from fin active sent have "w3 = w'"
      by (cases u) (auto simp: endSession_def)
    ultimately show ?thesis using False by simp
  qed
  then show ?thesis
    by (simp add: session_worlds_def start run fin payload_eq)
qed

theorem session_end_payload_summary_witness:
  "list_all (\<lambda>(rt, c). in_session c)
     [(example_runtime, TrackSwipe (on_screen ''A'')),
      (example_runtime, TrackScroll (on_screen ''A'')),
      (example_runtime, SendSessionEnd []),
      (example_runtime, TrackElementFocus (on_screen ''A'')),
      (example_runtime, TrackSwipe (on_screen ''B''))]
   \<and> (case session_worlds example_frontend_config example_runtime
              [(''device_type'', Str ''mobile''), (''session_id'', Str ''s-1'')]
              [(example_runtime, TrackSwipe (on_screen ''A'')),
               (example_runtime, TrackScroll (on_screen ''A'')),
               (example_runtime, SendSessionEnd []),
               (example_runtime, TrackElementFocus (on_screen ''A'')),
               (example_runtime, TrackSwipe (on_screen ''B''))]
              (example_runtime\<lparr>now := 1900\<rparr>) user_exit initial_state empty_world of
         (w2, w3) \<Rightarrow>
           requests w3 = requests w2 @
             [frontend_fetch example_frontend_config session_end
                (Obj [(''session_id'', Str ''s-1''),
                      (''session_duration_ms'', Num 900),
                      (''exit_reason'', Str ''user_exit''),
                      (''screens_visited'', Num 2),
                      (''total_events'', Num 4),
                      (''last_screen'', Str ''B'')])])"
  using session_end_payload_summary
    [of "[(example_runtime, TrackSwipe (on_screen ''A'')),
          (example_runtime, TrackScroll (on_screen ''A'')),
          (example_runtime, SendSessionEnd []),
          (example_runtime, TrackElementFocus (on_screen ''A'')),
          (example_runtime, TrackSwipe (on_screen ''B''))]"
        example_frontend_config example_runtime
        "[(''device_type'', Str ''mobile''), (''session_id'', Str ''s-1'')]"
        "example_runtime\<lparr>now := 1900\<rparr>" user_exit initial_state empty_world]
  by (simp add: tracked_screens_def map_filter_simps on_screen_def distinct_from_previous_def
      example_frontend_config_def example_runtime_def upt_rec ss_session_id_def)

text \<open>
  Claim C3 asks that \<open>track\<close> hand back the operation's own outcome whatever becomes
  of the report. The code does so once the operation is called (\<open>track_outcome\<close>, for
  every transport), and a result that cannot be printed is skipped by the inner
  \<open>try\<close>. But \<open>track\<close> prints the parameters before its \<open>try\<close>: for parameters that
  cannot be printed it rejects with what \<open>JSON.stringify\<close> raised, and the operation is
  never called. At the input below the operation would return \<open>found\<close>; \<open>track\<close> and
  the function made by \<open>wrap\<close> reject with the TypeError instead, while the same value
  as a result passes through.
\<close>

theorem track_unprintable_parameters_reject:
  "track example_config example_runtime ''search'' (Returned (Str ''found''))
      \<lparr>callId = None, parameters = BigInt 10, errorType = None\<rparr> empty_world
     = (Thrown BigInt_TypeError, empty_world)
   \<and> wrap example_config example_runtime ''search'' (\<lambda>args. Returned (Str ''found'')) None
      [BigInt 10] empty_world
     = (Thrown BigInt_TypeError, empty_world)
   \<and> fst (track example_config example_runtime ''search'' (Returned (BigInt 10))
      \<lparr>callId = None, parameters = Undefined, errorType = None\<rparr> empty_world)
     = Returned (BigInt 10)"
  by (simp add: wrap_def track_rejects track_outcome parameters_text_def)

section \<open>Disabled trackers\<close>

text \<open>
  Claim C4. With \<open>disabled = true\<close> every tracking method of the backend tracker
  returns normally and leaves the world as it was, and every method of the frontend
  tracker returns normally without a request (it still updates its counters, and
  \<open>endSession\<close> may still print its warning). The wrapper's \<open>track\<close> on a disabled
  backend tracker makes no request either.
\<close>

theorem disabled_makes_no_request:
  assumes "disabled config" and "fe_disabled fconfig"
  shows "backend_step config rt bc w = (Returned (), w)
       \<and> (\<exists>v. fst (frontend_step fconfig rt fc s w) = Returned v)
       \<and> requests (snd (snd (frontend_step fconfig rt fc s w))) = requests w
       \<and> requests (snd (track config rt toolName fn options w)) = requests w"
proof -
  from frontend_step_sends [of fconfig rt fc s w] assms(2)
  have "requests (snd (snd (frontend_step fconfig rt fc s w))) = requests w"
    by auto
  moreover from track_sends [of config rt toolName fn options w] assms(1)
  have "requests (snd (track config rt toolName fn options w)) = requests w"
    by auto
  ultimately show ?thesis
    using backend_step_disabled [OF assms(1)] frontend_step_returns by simp
qed

theorem disabled_makes_no_request_witness:
  "disabled (example_config\<lparr>disabled := True\<rparr>)
   \<and> fe_disabled (example_frontend_config\<lparr>fe_disabled := True\<rparr>)
   \<and> backend_step (example_config\<lparr>disabled := True\<rparr>) example_runtime
        (TrackSuccess ''search'' 50 \<lparr>so_callId = None, so_parameters = None,
                                      so_responseSizeBytes = None\<rparr>) empty_world
       = (Returned (), empty_world)
   \<and> requests (snd (snd (frontend_step (example_frontend_config\<lparr>fe_disabled := True\<rparr>)
        example_runtime (TrackSwipe (on_screen ''home'')) initial_state empty_world))) = []"
proof -
  have a: "disabled (example_config\<lparr>disabled := True\<rparr>)"
    and b: "fe_disabled (example_frontend_config\<lparr>fe_disabled := True\<rparr>)"
    by simp_all
  show ?thesis
    using a b disabled_makes_no_request [OF a b, where rt = example_runtime
        and bc = "TrackSuccess ''search'' 50 \<lparr>so_callId = None, so_parameters = None,
                                      so_responseSizeBytes = None\<rparr>"
        and w = empty_world and fc = "TrackSwipe (on_screen ''home'')" and s = initial_state]
    by (simp add: empty_world_def)
qed

text \<open>
  Claim C5. When no session is active, \<open>endSession\<close> returns normally, leaves the
  tracker's fields as they were, makes no request and prints one warning. No session is
  active when the session id or the start time is unset; that is the case on a tracker on
  which \<open>startSession\<close> was never called (whatever else was called), and after any
  \<open>endSession\<close>.
\<close>

theorem endSession_without_session_is_noop:
  "(no_active_session s \<longrightarrow>
      endSession config rt exitReason s w =
        (Returned (), s,
         w\<lparr>console := console w @
              [Console_warn ''[MimosFrontendAnalytics] No active session to end'']\<rparr>)
      \<and> requests (snd (snd (endSession config rt exitReason s w))) = requests w)
   \<and> (sessionId s = None \<or> sessionStartTime s = None \<longrightarrow> no_active_session s)
   \<and> (list_all (\<lambda>(rt, c). \<not> is_StartSession c) calls \<longrightarrow>
        no_active_session (fst (snd (frontend_run config calls initial_state w))))
   \<and> no_active_session (fst (snd (endSession config rt exitReason s w)))"
proof -
  have "no_active_session initial_state"
    by (simp add: no_active_session_def initial_state_def)
  then have "list_all (\<lambda>(rt, c). \<not> is_StartSession c) calls \<longrightarrow>
        no_active_session (fst (snd (frontend_run config calls initial_state w)))"
    using frontend_run_keeps_no_session by blast
  moreover have "sessionId s = None \<or> sessionStartTime s = None \<longrightarrow> no_active_session s"
    by (auto simp: no_active_session_def)
  moreover have "no_active_session s \<longrightarrow>
      endSession config rt exitReason s w =
        (Returned (), s,
         w\<lparr>console := console w @
              [Console_warn ''[MimosFrontendAnalytics] No active session to end'']\<rparr>)
      \<and> requests (snd (snd (endSession config rt exitReason s w))) = requests w"
    by (simp add: endSession_def)
  ultimately show ?thesis
    using endSession_leaves_no_session by blast
qed

theorem endSession_without_session_is_noop_witness:
  "no_active_session initial_state
   \<and> endSession example_frontend_config example_runtime user_exit initial_state empty_world =
     (Returned (), initial_state,
      \<lparr>requests = [],
       console = [Console_warn ''[MimosFrontendAnalytics] No active session to end'']\<rparr>)
   \<and> no_active_session (fst (snd (frontend_run example_frontend_config
        [(example_runtime, TrackSwipe (on_screen ''home'')), (example_runtime, EndSession logout)]
        initial_state empty_world)))"
  using endSession_without_session_is_noop
          [where s = initial_state and config = example_frontend_config
             and rt = example_runtime and exitReason = user_exit and w = empty_world
             and calls = "[(example_runtime, TrackSwipe (on_screen ''home'')),
                           (example_runtime, EndSession logout)]"]
  by (simp add: initial_state_def empty_world_def)

section \<open>The wire format\<close>



section \<open>Endpoint URL\<close>

lemma strip_trailing_slash_snoc: "strip_trailing_slash (b @ ''/'') = b"
  by (simp add: strip_trailing_slash_def)

lemma strip_trailing_slash_none:
  "b = [] \<or> last b \<noteq> CHR ''/'' \<Longrightarrow> strip_trailing_slash b = b"
  by (auto simp: strip_trailing_slash_def)

text \<open>
  Claim C7. The endpoint URL is the trimmed base, one slash, and the rest of the fixed
  path, where the trimmed base is the base URL without its last character when that is a
  slash: exactly one trailing slash is removed. So a base with no trailing slash and the
  same base with one trailing slash give the same URL, with a single slash at the joint;
  of two trailing slashes one stays in front of the suffix.
\<close>

theorem endpoint_url_one_slash:
  "backendMetricsUrl config =
      strip_trailing_slash (baseUrl config) @ ''/'' @ ''v1/backend-metrics/write/''
   \<and> frontendMetricsUrl fconfig =
      strip_trailing_slash (fe_baseUrl fconfig) @ ''/'' @ ''v1/frontend-metrics/write/''
   \<and> strip_trailing_slash (b @ ''/'') = b
   \<and> (b = [] \<or> last b \<noteq> CHR ''/'' \<longrightarrow> strip_trailing_slash b = b)
   \<and> ((b = [] \<or> last b \<noteq> CHR ''/'') \<and> (baseUrl config = b \<or> baseUrl config = b @ ''/'')
        \<longrightarrow> backendMetricsUrl config = b @ ''/v1/backend-metrics/write/'')
   \<and> ((b = [] \<or> last b \<noteq> CHR ''/'') \<and> (fe_baseUrl fconfig = b \<or> fe_baseUrl fconfig = b @ ''/'')
        \<longrightarrow> frontendMetricsUrl fconfig = b @ ''/v1/frontend-metrics/write/'')
   \<and> (baseUrl config = b @ ''//'' \<longrightarrow> backendMetricsUrl config = b @ ''//v1/backend-metrics/write/'')
   \<and> (fe_baseUrl fconfig = b @ ''//''
        \<longrightarrow> frontendMetricsUrl fconfig = b @ ''//v1/frontend-metrics/write/'')"
proof -
  have two: "strip_trailing_slash (b @ ''//'') = b @ ''/''"
    using strip_trailing_slash_snoc [of "b @ ''/''"] by simp
  show ?thesis
    using strip_trailing_slash_snoc [of b] strip_trailing_slash_none [of b] two
    by (auto simp: backendMetricsUrl_def frontendMetricsUrl_def)
qed

theorem endpoint_url_one_slash_witness:
  "backendMetricsUrl example_config = ''http://localhost:8080/v1/backend-metrics/write/''
   \<and> frontendMetricsUrl example_frontend_config = ''http://localhost:8080/v1/frontend-metrics/write/''
   \<and> strip_trailing_slash ''http://localhost:8080'' = ''http://localhost:8080''
   \<and> backendMetricsUrl (example_config\<lparr>baseUrl := ''http://localhost:8080//''\<rparr>)
       = ''http://localhost:8080//v1/backend-metrics/write/''
   \<and> frontendMetricsUrl (example_frontend_config\<lparr>fe_baseUrl := ''http://localhost:8080//''\<rparr>)
       = ''http://localhost:8080//v1/frontend-metrics/write/''"
proof -
  let ?b = "''http://localhost:8080''"
  let ?config2 = "example_config\<lparr>baseUrl := ''http://localhost:8080//''\<rparr>"
  let ?fconfig2 = "example_frontend_config\<lparr>fe_baseUrl := ''http://localhost:8080//''\<rparr>"
  have "(?b = [] \<or> last ?b \<noteq> CHR ''/'')
        \<and> (baseUrl example_config = ?b \<or> baseUrl example_config = ?b @ ''/'')
        \<longrightarrow> backendMetricsUrl example_config = ?b @ ''/v1/backend-metrics/write/''"
    and "(?b = [] \<or> last ?b \<noteq> CHR ''/'')
        \<and> (fe_baseUrl example_frontend_config = ?b \<or> fe_baseUrl example_frontend_config = ?b @ ''/'')
        \<longrightarrow> frontendMetricsUrl example_frontend_config = ?b @ ''/v1/frontend-metrics/write/''"
    and "?b = [] \<or> last ?b \<noteq> CHR ''/'' \<longrightarrow> strip_trailing_slash ?b = ?b"
    using endpoint_url_one_slash [of example_config example_frontend_config ?b] by blast+
  moreover have "baseUrl ?config2 = ?b @ ''//''
        \<longrightarrow> backendMetricsUrl ?config2 = ?b @ ''//v1/backend-metrics/write/''"
    and "fe_baseUrl ?fconfig2 = ?b @ ''//''
        \<longrightarrow> frontendMetricsUrl ?fconfig2 = ?b @ ''//v1/frontend-metrics/write/''"
    using endpoint_url_one_slash [of ?config2 ?fconfig2 ?b] by blast+
  ultimately show ?thesis
    by (simp add: example_config_def example_frontend_config_def)
qed



section \<open>Error extraction of the two trackers\<close>

text \<open>
  Claim C9, as stated, says that \<open>trackLoadError\<close> and \<open>trackError\<close> read the same
  three values off an error. They do not: for an instance of a subclass of \<open>Error\<close>
  that does not set \<open>name\<close>, the backend reports the class name and the frontend the
  inherited name \<open>Error\<close>.
\<close>

theorem load_error_extraction_differs:
  "trackLoadError_extract
      (ErrorV \<lparr>name = ''Error'', message = ''bad input'',
               constructor_name = ''ValidationError'', stack = None\<rparr>) None
   \<noteq> trackError_extract
      (ErrorV \<lparr>name = ''Error'', message = ''bad input'',
               constructor_name = ''ValidationError'', stack = None\<rparr>) None"
  by (simp add: trackLoadError_extract_def trackError_extract_def)

text \<open>
  Claim C9, amended. Both read the same message and the same stack trace. The error
  code is the caller's override when that is a non-empty string; otherwise, for an
  \<open>Error\<close> instance, the frontend takes the error's \<open>name\<close> property where the backend
  takes the name of its constructor, and for any other value both take the literal
  \<open>Error\<close>. The two extractions are equal when a non-empty override is given, when the
  value is not an \<open>Error\<close> instance, or when the error's name is its constructor's name.
\<close>

theorem load_error_extraction_compared:
  "fst (trackLoadError_extract error code) = fst (trackError_extract error code)
   \<and> snd (snd (trackLoadError_extract error code)) = snd (snd (trackError_extract error code))
   \<and> fst (snd (trackError_extract error code)) =
        or_else code (case error of ErrorV e \<Rightarrow> constructor_name e | _ \<Rightarrow> ''Error'')
   \<and> fst (snd (trackLoadError_extract error code)) =
        or_else code (case error of ErrorV e \<Rightarrow> name e | _ \<Rightarrow> ''Error'')
   \<and> ((\<exists>c. code = Some c \<and> c \<noteq> []) \<or> (\<forall>e. error \<noteq> ErrorV e)
        \<or> (\<exists>e. error = ErrorV e \<and> name e = constructor_name e)
       \<longrightarrow> trackLoadError_extract error code = trackError_extract error code)"
  by (cases error; cases code)
     (auto simp: trackLoadError_extract_def trackError_extract_def)

theorem load_error_extraction_compared_witness:
  "trackLoadError_extract
      (ErrorV \<lparr>name = ''TypeError'', message = ''x is not a function'',
               constructor_name = ''TypeError'', stack = Some ''at f''\<rparr>) None
   = trackError_extract
      (ErrorV \<lparr>name = ''TypeError'', message = ''x is not a function'',
               constructor_name = ''TypeError'', stack = Some ''at f''\<rparr>) None
   \<and> trackLoadError_extract
      (ErrorV \<lparr>name = ''Error'', message = ''bad input'',
               constructor_name = ''ValidationError'', stack = None\<rparr>) (Some ''E42'')
   = trackError_extract
      (ErrorV \<lparr>name = ''Error'', message = ''bad input'',
               constructor_name = ''ValidationError'', stack = None\<rparr>) (Some ''E42'')
   \<and> trackLoadError_extract (Str ''offline'') None = trackError_extract (Str ''offline'') None"
  using load_error_extraction_compared
          [where error = "ErrorV \<lparr>name = ''TypeError'', message = ''x is not a function'',
               constructor_name = ''TypeError'', stack = Some ''at f''\<rparr>" and code = None]
        load_error_extraction_compared
          [where error = "ErrorV \<lparr>name = ''Error'', message = ''bad input'',
               constructor_name = ''ValidationError'', stack = None\<rparr>" and code = "Some ''E42''"]
        load_error_extraction_compared [where error = "Str ''offline''" and code = None]
  by simp

section \<open>Generated identifiers\<close>

lemma generated_id_form:
  "generateCallId d r = decimal d @ ''-'' @ take 9 (drop 2 r)"
  "generateSessionId d r = decimal d @ ''-'' @ take 9 (drop 2 r)"
  by (simp_all add: generateCallId_def generateSessionId_def substring_def)

lemma tool_call_payload_is_printed:
  "JSON_stringify
     (Obj [(''tool_name'', Str tool),
           (''duration_ms'', Num duration),
           (''status'', Str statusText),
           (''timestamp_ms'', Num timestampMs),
           (''call_id'', opt_str cid),
           (''parameters'', opt_str parametersStr),
           (''response_size_bytes'', opt_num sizeBytes)])
   = Returned (json_text
     (Obj [(''tool_name'', Str tool),
           (''duration_ms'', Num duration),
           (''status'', Str statusText),
           (''timestamp_ms'', Num timestampMs),
           (''call_id'', opt_str cid),
           (''parameters'', opt_str parametersStr),
           (''response_size_bytes'', opt_num sizeBytes)]))"
  by (cases cid; cases parametersStr; cases sizeBytes) (simp_all add: json_text_def)

lemma trackSuccess_requests:
  "requests (snd (trackSuccess config rt toolName durationMs options w)) = requests w @
     (if disabled config then []
      else [backend_fetch config
              \<lparr>event_type = ''tool_call'',
               metric_value = json_text
                 (Obj [(''tool_name'', Str toolName),
                       (''duration_ms'', Num durationMs),
                       (''status'', Str ''success''),
                       (''timestamp_ms'', Num (int (now rt))),
                       (''call_id'', opt_str (so_callId options)),
                       (''parameters'', opt_str (so_parameters options)),
                       (''response_size_bytes'',
                          opt_num (map_option int (so_responseSizeBytes options)))])\<rparr>])"
  by (simp add: trackSuccess_def trackToolCall_requests tool_call_payload_is_printed
      del: JSON_stringify.simps)

lemma map_of_set_property: "map_of (set_property payload k v) k = Some v"
  by (induction payload k v rule: set_property.induct) simp_all

lemma set_property_twice:
  "set_property (set_property payload k u) k v = set_property payload k v"
  by (induction payload k u rule: set_property.induct) simp_all

lemma set_property_keys:
  "map_of payload k = Some u \<Longrightarrow> map fst (set_property payload k v) = map fst payload"
  by (induction payload k v rule: set_property.induct) (auto split: if_splits)

lemma example_generated_id: "generateSessionId 1000 ''0.4fzyo82mvyr'' = ''1000-4fzyo82mv''"
  by code_simp

lemma example_short_ids:
  "generateCallId 1000 ''0.i'' = ''1000-i''" "generateCallId 1000 ''0'' = ''1000-''"
  "generateSessionId 1000 ''0.i'' = ''1000-i''"
  by code_simp+

text \<open>
  Claim C10 says that the id generated in place of an empty one ends in nine random
  characters. The suffix is \<open>substring(2, 11)\<close> of the base-36 text of the random
  number, and that text can be short: \<open>0.5\<close> prints as \<open>0.i\<close>, and \<open>0\<close> as
  \<open>0\<close>. With the clock at 1000 the ids are then \<open>1000-i\<close> and \<open>1000-\<close>.
\<close>

theorem generated_suffix_shorter_than_nine:
  "fst (trackWithMetadata example_config (example_runtime\<lparr>random36 := ''0.i''\<rparr>) ''search''
          (Returned Null) \<lparr>callId = Some '''', parameters = Undefined, errorType = None\<rparr>
          empty_world)
     = Returned \<lparr>tc_result = Null, tc_durationMs = 50, tc_callId = ''1000-i''\<rparr>
   \<and> fst (startSession example_frontend_config (example_runtime\<lparr>random36 := ''0.i''\<rparr>)
          [(''session_id'', Str '''')] initial_state empty_world)
     = Returned ''1000-i''
   \<and> substring ''0.i'' 2 11 = ''i''
   \<and> length (substring ''0.i'' 2 11) \<noteq> 9
   \<and> generateCallId 1000 ''0'' = ''1000-''
   \<and> length (substring ''0'' 2 11) \<noteq> 9"
  by (simp add: trackWithMetadata_def startSession_def Let_def parameters_text_def
        ss_session_id_def example_runtime_def example_short_ids substring_def
      split: prod.splits outcome.splits)

text \<open>
  Claim C10, amended. An empty string given as \<open>callId\<close> to \<open>track\<close> or
  \<open>trackWithMetadata\<close>, or as \<open>session_id\<close> to \<open>startSession\<close>, behaves as if none
  was given: the id used is the generated one. That id is the decimal clock reading, a
  hyphen, and the characters at positions 2 to 10 of the base-36 text of the random
  number: at most nine characters, as many as that text has from position 2 on. It is
  never empty. It is the \<open>call_id\<close> of the report that \<open>track\<close> and
  \<open>trackWithMetadata\<close> send and the \<open>tc_callId\<close> handed back; for a session it is the
  value returned, the \<open>sessionId\<close> field and the \<open>session_id\<close> of the payload sent,
  written at the place the caller's key had.
\<close>

theorem empty_id_is_replaced:
  "track config rt toolName fn (options\<lparr>callId := Some ''''\<rparr>) w =
      track config rt toolName fn (options\<lparr>callId := None\<rparr>) w
   \<and> trackWithMetadata config rt toolName fn (options\<lparr>callId := Some ''''\<rparr>) w =
      trackWithMetadata config rt toolName fn (options\<lparr>callId := None\<rparr>) w
   \<and> requests (snd (track config rt toolName (Returned r) (options\<lparr>callId := Some ''''\<rparr>) w)) =
      requests w @
      (case parameters_text (parameters options) of
         Thrown e \<Rightarrow> []
       | Returned parametersStr \<Rightarrow>
           if disabled config then []
           else [backend_fetch config
                   \<lparr>event_type = ''tool_call'',
                    metric_value = json_text
                      (Obj [(''tool_name'', Str toolName),
                            (''duration_ms'', Num (int (now_end rt) - int (now_start rt))),
                            (''status'', Str ''success''),
                            (''timestamp_ms'', Num (int (now rt))),
                            (''call_id'', Str (generateCallId (now_id rt) (random36 rt))),
                            (''parameters'', opt_str parametersStr),
                            (''response_size_bytes'',
                               opt_num (map_option int (response_size r)))])\<rparr>])
   \<and> snd (track config rt toolName (Thrown error) (options\<lparr>callId := Some ''''\<rparr>) w) =
      (case parameters_text (parameters options) of
         Thrown e \<Rightarrow> w
       | Returned parametersStr \<Rightarrow>
           snd (trackError config rt toolName error
                  \<lparr>eo_callId = Some (generateCallId (now_id rt) (random36 rt)),
                   eo_parameters = parametersStr,
                   eo_errorType = Some (resolveErrorType (errorType options) error),
                   eo_errorCode = None\<rparr> w))
   \<and> snd (trackWithMetadata config rt toolName fn (options\<lparr>callId := Some ''''\<rparr>) w) =
      snd (track config rt toolName fn (options\<lparr>callId := Some ''''\<rparr>) w)
   \<and> fst (trackWithMetadata config rt toolName (Returned r) (options\<lparr>callId := Some ''''\<rparr>) w) =
      (case parameters_text (parameters options) of
         Thrown e \<Rightarrow> Thrown e
       | Returned parametersStr \<Rightarrow>
           Returned \<lparr>tc_result = r, tc_durationMs = int (now_end rt) - int (now_start rt),
                     tc_callId = generateCallId (now_id rt) (random36 rt)\<rparr>)
   \<and> startSession fconfig rt (set_property payload ''session_id'' (Str '''')) s w =
      startSession fconfig rt (set_property payload ''session_id'' Undefined) s w
   \<and> (map_of payload ''session_id'' = Some (Str '''') \<longrightarrow>
        fst (startSession fconfig rt payload s w) =
          Returned (generateSessionId (now_id rt) (random36 rt))
        \<and> sessionId (fst (snd (startSession fconfig rt payload s w))) =
          Some (generateSessionId (now_id rt) (random36 rt))
        \<and> requests (snd (snd (startSession fconfig rt payload s w))) =
          requests w @
          (if \<not> fe_disabled fconfig
              \<and> serializable (Obj (set_property payload ''session_id''
                    (Str (generateSessionId (now_id rt) (random36 rt)))))
           then [frontend_fetch fconfig session_start
                   (Obj (set_property payload ''session_id''
                      (Str (generateSessionId (now_id rt) (random36 rt)))))]
           else [])
        \<and> map_of (set_property payload ''session_id''
                    (Str (generateSessionId (now_id rt) (random36 rt)))) ''session_id''
            = Some (Str (generateSessionId (now_id rt) (random36 rt)))
        \<and> map fst (set_property payload ''session_id''
                    (Str (generateSessionId (now_id rt) (random36 rt))))
            = map fst payload)
   \<and> generateCallId d rnd = decimal d @ ''-'' @ take 9 (drop 2 rnd)
   \<and> generateSessionId d rnd = decimal d @ ''-'' @ take 9 (drop 2 rnd)
   \<and> generateCallId d rnd \<noteq> '''' \<and> generateSessionId d rnd \<noteq> ''''
   \<and> length (take 9 (drop 2 rnd)) = min 9 (length rnd - 2)"
proof -
  let ?gen = "generateCallId (now_id rt) (random36 rt)"
  let ?sid = "generateSessionId (now_id rt) (random36 rt)"
  have t: "track config rt toolName fn (options\<lparr>callId := Some ''''\<rparr>) w =
      track config rt toolName fn (options\<lparr>callId := None\<rparr>) w"
    by (cases "parameters_text (parameters options)"; cases fn)
       (simp_all add: track_def Let_def)
  have m: "trackWithMetadata config rt toolName fn (options\<lparr>callId := Some ''''\<rparr>) w =
      trackWithMetadata config rt toolName fn (options\<lparr>callId := None\<rparr>) w"
    by (cases "parameters_text (parameters options)"; cases fn)
       (simp_all add: trackWithMetadata_def Let_def)
  have report: "requests (snd (track config rt toolName (Returned r) (options\<lparr>callId := Some ''''\<rparr>) w)) =
      requests w @
      (case parameters_text (parameters options) of
         Thrown e \<Rightarrow> []
       | Returned parametersStr \<Rightarrow>
           if disabled config then []
           else [backend_fetch config
                   \<lparr>event_type = ''tool_call'',
                    metric_value = json_text
                      (Obj [(''tool_name'', Str toolName),
                            (''duration_ms'', Num (int (now_end rt) - int (now_start rt))),
                            (''status'', Str ''success''),
                            (''timestamp_ms'', Num (int (now rt))),
                            (''call_id'', Str ?gen),
                            (''parameters'', opt_str parametersStr),
                            (''response_size_bytes'',
                               opt_num (map_option int (response_size r)))])\<rparr>])"
    by (cases "parameters_text (parameters options)")
       (simp_all add: track_world trackSuccess_requests del: JSON_stringify.simps)
  have failed: "snd (track config rt toolName (Thrown error) (options\<lparr>callId := Some ''''\<rparr>) w) =
      (case parameters_text (parameters options) of
         Thrown e \<Rightarrow> w
       | Returned parametersStr \<Rightarrow>
           snd (trackError config rt toolName error
                  \<lparr>eo_callId = Some ?gen, eo_parameters = parametersStr,
                   eo_errorType = Some (resolveErrorType (errorType options) error),
                   eo_errorCode = None\<rparr> w))"
    by (cases "parameters_text (parameters options)") (simp_all add: track_world)
  have same: "snd (trackWithMetadata config rt toolName fn (options\<lparr>callId := Some ''''\<rparr>) w) =
      snd (track config rt toolName fn (options\<lparr>callId := Some ''''\<rparr>) w)"
    by (rule trackWithMetadata_world)
  have meta: "fst (trackWithMetadata config rt toolName (Returned r) (options\<lparr>callId := Some ''''\<rparr>) w) =
      (case parameters_text (parameters options) of
         Thrown e \<Rightarrow> Thrown e
       | Returned parametersStr \<Rightarrow>
           Returned \<lparr>tc_result = r, tc_durationMs = int (now_end rt) - int (now_start rt),
                     tc_callId = ?gen\<rparr>)"
    by (cases "parameters_text (parameters options)")
       (simp_all add: trackWithMetadata_def Let_def)
  have absent: "startSession fconfig rt (set_property payload ''session_id'' (Str '''')) s w =
      startSession fconfig rt (set_property payload ''session_id'' Undefined) s w"
    by (simp add: startSession_def Let_def ss_session_id_def map_of_set_property
          set_property_twice)
  have session: "map_of payload ''session_id'' = Some (Str '''') \<longrightarrow>
        fst (startSession fconfig rt payload s w) = Returned ?sid
        \<and> sessionId (fst (snd (startSession fconfig rt payload s w))) = Some ?sid
        \<and> requests (snd (snd (startSession fconfig rt payload s w))) =
          requests w @
          (if \<not> fe_disabled fconfig
              \<and> serializable (Obj (set_property payload ''session_id'' (Str ?sid)))
           then [frontend_fetch fconfig session_start
                   (Obj (set_property payload ''session_id'' (Str ?sid)))]
           else [])
        \<and> map_of (set_property payload ''session_id'' (Str ?sid)) ''session_id''
            = Some (Str ?sid)
        \<and> map fst (set_property payload ''session_id'' (Str ?sid)) = map fst payload"
  proof
    assume empty: "map_of payload ''session_id'' = Some (Str '''')"
    then have id: "or_else (ss_session_id payload) ?sid = ?sid"
      by (simp add: ss_session_id_def)
    have ret: "fst (startSession fconfig rt payload s w) = Returned ?sid"
      using id by (simp add: startSession_def Let_def split: prod.splits outcome.splits)
    have fld: "sessionId (fst (snd (startSession fconfig rt payload s w))) = Some ?sid"
      using id by (simp add: startSession_state)
    have req: "requests (snd (snd (startSession fconfig rt payload s w))) =
          requests w @
          (if \<not> fe_disabled fconfig
              \<and> serializable (Obj (set_property payload ''session_id'' (Str ?sid)))
           then [frontend_fetch fconfig session_start
                   (Obj (set_property payload ''session_id'' (Str ?sid)))]
           else [])"
      using id by (simp add: startSession_world fe_sendMetric_requests)
    show "fst (startSession fconfig rt payload s w) = Returned ?sid
        \<and> sessionId (fst (snd (startSession fconfig rt payload s w))) = Some ?sid
        \<and> requests (snd (snd (startSession fconfig rt payload s w))) =
          requests w @
          (if \<not> fe_disabled fconfig
              \<and> serializable (Obj (set_property payload ''session_id'' (Str ?sid)))
           then [frontend_fetch fconfig session_start
                   (Obj (set_property payload ''session_id'' (Str ?sid)))]
           else [])
        \<and> map_of (set_property payload ''session_id'' (Str ?sid)) ''session_id''
            = Some (Str ?sid)
        \<and> map fst (set_property payload ''session_id'' (Str ?sid)) = map fst payload"
      by (intro conjI) (fact ret, fact fld, fact req, rule map_of_set_property,
          rule set_property_keys [OF empty])
  qed
  have len: "length (take 9 (drop 2 rnd)) = min 9 (length rnd - 2)"
    by simp
  show ?thesis
    by (intro conjI) (fact t, fact m, fact report, fact failed, fact same, fact meta,
        fact absent, fact session, rule generated_id_form, rule generated_id_form,
        rule generateCallId_not_empty, rule generateSessionId_not_empty, fact len)
qed

theorem empty_id_is_replaced_witness:
  "map_of [(''device_type'', Str ''mobile''), (''session_id'', Str ''''), (''os'', Str ''ios'')]
      ''session_id'' = Some (Str '''')
   \<and> fst (startSession example_frontend_config example_runtime
          [(''device_type'', Str ''mobile''), (''session_id'', Str ''''), (''os'', Str ''ios'')]
          initial_state empty_world)
     = Returned ''1000-4fzyo82mv''
   \<and> requests (snd (snd (startSession example_frontend_config example_runtime
          [(''device_type'', Str ''mobile''), (''session_id'', Str ''''), (''os'', Str ''ios'')]
          initial_state empty_world)))
     = [frontend_fetch example_frontend_config session_start
          (Obj [(''device_type'', Str ''mobile''), (''session_id'', Str ''1000-4fzyo82mv''),
                (''os'', Str ''ios'')])]"
proof -
  let ?payload = "[(''device_type'', Str ''mobile''), (''session_id'', Str ''''),
                   (''os'', Str ''ios'')]"
  have empty: "map_of ?payload ''session_id'' = Some (Str '''')"
    by simp
  have id: "generateSessionId (now_id example_runtime) (random36 example_runtime)
      = ''1000-4fzyo82mv''"
    by (simp add: example_runtime_def example_generated_id)
  have "map_of ?payload ''session_id'' = Some (Str '''') \<longrightarrow>
        fst (startSession example_frontend_config example_runtime ?payload
               initial_state empty_world)
          = Returned (generateSessionId (now_id example_runtime) (random36 example_runtime))
        \<and> requests (snd (snd (startSession example_frontend_config example_runtime ?payload
               initial_state empty_world))) =
          requests empty_world @
          (if \<not> fe_disabled example_frontend_config
              \<and> serializable (Obj (set_property ?payload ''session_id''
                    (Str (generateSessionId (now_id example_runtime)
                            (random36 example_runtime)))))
           then [frontend_fetch example_frontend_config session_start
                   (Obj (set_property ?payload ''session_id''
                      (Str (generateSessionId (now_id example_runtime)
                              (random36 example_runtime)))))]
           else [])"
    using empty_id_is_replaced
            [where fconfig = example_frontend_config and rt = example_runtime
               and payload = ?payload and s = initial_state and w = empty_world]
    by blast
  with empty show ?thesis
    by (simp add: id example_frontend_config_def empty_world_def serializable_def
          del: startSession_def)
qed


end
